theory Spec2Isabelle
  imports Complex_Main
begin

section \<open>Single-precision values\<close>

text \<open>
  The C++ type \<^verbatim>\<open>float\<close> is modelled by the finite values, the two infinities and
  not-a-number. Arithmetic on finite values is exact: rounding, overflow to infinity
  and the sign of zero are not modelled (a finite non-zero value divided by zero is
  the infinity of the sign of the numerator). What the control flow of the program
  depends on is kept: every comparison with \<open>NaN\<close> is false, \<^verbatim>\<open>std::isfinite\<close>
  rejects \<open>NaN\<close> and the infinities, and the invalid operations
  (\<open>0/0\<close>, \<open>inf - inf\<close>, \<open>0 * inf\<close>, \<open>inf / inf\<close>, the square root of a negative
  value) give \<open>NaN\<close>.
\<close>

datatype float = Fin real | PInf | NInf | NaN

instantiation float :: "{plus,minus,uminus,times,inverse,abs,ord}"
begin

fun plus_float :: "float \<Rightarrow> float \<Rightarrow> float" where
  "plus_float (Fin a) (Fin b) = Fin (a + b)"
| "plus_float NaN y = NaN"
| "plus_float x NaN = NaN"
| "plus_float PInf NInf = NaN"
| "plus_float NInf PInf = NaN"
| "plus_float PInf y = PInf"
| "plus_float NInf y = NInf"
| "plus_float (Fin a) y = y"

fun uminus_float :: "float \<Rightarrow> float" where
  "uminus_float (Fin a) = Fin (- a)"
| "uminus_float PInf = NInf"
| "uminus_float NInf = PInf"
| "uminus_float NaN = NaN"

definition minus_float :: "float \<Rightarrow> float \<Rightarrow> float" where
  "minus_float x y = x + (- y)"

fun times_float :: "float \<Rightarrow> float \<Rightarrow> float" where
  "times_float (Fin a) (Fin b) = Fin (a * b)"
| "times_float NaN y = NaN"
| "times_float x NaN = NaN"
| "times_float (Fin a) PInf = (if a = 0 then NaN else if 0 < a then PInf else NInf)"
| "times_float (Fin a) NInf = (if a = 0 then NaN else if 0 < a then NInf else PInf)"
| "times_float PInf (Fin b) = (if b = 0 then NaN else if 0 < b then PInf else NInf)"
| "times_float NInf (Fin b) = (if b = 0 then NaN else if 0 < b then NInf else PInf)"
| "times_float PInf PInf = PInf"
| "times_float PInf NInf = NInf"
| "times_float NInf PInf = NInf"
| "times_float NInf NInf = PInf"

fun divide_float :: "float \<Rightarrow> float \<Rightarrow> float" where
  "divide_float (Fin a) (Fin b) =
     (if b = 0 then (if a = 0 then NaN else if 0 < a then PInf else NInf) else Fin (a / b))"
| "divide_float NaN y = NaN"
| "divide_float x NaN = NaN"
| "divide_float (Fin a) y = Fin 0"
| "divide_float PInf (Fin b) = (if 0 \<le> b then PInf else NInf)"
| "divide_float NInf (Fin b) = (if 0 \<le> b then NInf else PInf)"
| "divide_float PInf y = NaN"
| "divide_float NInf y = NaN"

definition inverse_float :: "float \<Rightarrow> float" where
  "inverse_float x = divide (Fin 1) x"

fun abs_float :: "float \<Rightarrow> float" where
  "abs_float (Fin a) = Fin \<bar>a\<bar>"
| "abs_float PInf = PInf"
| "abs_float NInf = PInf"
| "abs_float NaN = NaN"

fun less_float :: "float \<Rightarrow> float \<Rightarrow> bool" where
  "less_float (Fin a) (Fin b) = (a < b)"
| "less_float NaN y = False"
| "less_float x NaN = False"
| "less_float x NInf = False"
| "less_float PInf y = False"
| "less_float x y = True"

fun less_eq_float :: "float \<Rightarrow> float \<Rightarrow> bool" where
  "less_eq_float (Fin a) (Fin b) = (a \<le> b)"
| "less_eq_float NaN y = False"
| "less_eq_float x NaN = False"
| "less_eq_float NInf y = True"
| "less_eq_float x PInf = True"
| "less_eq_float x y = False"

instance ..

end

text \<open>\<^verbatim>\<open>std::isfinite\<close>, \<^verbatim>\<open>sqrtf\<close> and \<^verbatim>\<open>floorf\<close>.\<close>

fun isfinite :: "float \<Rightarrow> bool" where
  "isfinite (Fin a) = True"
| "isfinite x = False"

fun sqrtf :: "float \<Rightarrow> float" where
  "sqrtf (Fin a) = (if a < 0 then NaN else Fin (sqrt a))"
| "sqrtf PInf = PInf"
| "sqrtf NInf = NaN"
| "sqrtf NaN = NaN"

fun floorf :: "float \<Rightarrow> float" where
  "floorf (Fin a) = Fin (of_int \<lfloor>a\<rfloor>)"
| "floorf x = x"

text \<open>A finite value that is not negative.\<close>

fun fin_nonneg :: "float \<Rightarrow> bool" where
  "fin_nonneg (Fin a) = (0 \<le> a)"
| "fin_nonneg x = False"

text \<open>
  Conversions between \<^verbatim>\<open>int\<close> and \<^verbatim>\<open>float\<close>. The conversion to \<^verbatim>\<open>int\<close> truncates
  towards zero; for a value that is not finite or does not fit 32 bits C++ leaves
  the result undefined, and the model gives what the SSE conversion instruction
  gives, the smallest 32-bit integer.
\<close>

definition float_of_int :: "int \<Rightarrow> float" where
  "float_of_int i = Fin (of_int i)"

fun int_of_float :: "float \<Rightarrow> int" where
  "int_of_float (Fin a) =
     (let t = (if 0 \<le> a then \<lfloor>a\<rfloor> else \<lceil>a\<rceil>)
      in if - 2147483648 \<le> t \<and> t \<le> 2147483647 then t else - 2147483648)"
| "int_of_float x = - 2147483648"

section \<open>Vectors and matrices\<close>

text \<open>The Eigen types of the program, matrices by rows.\<close>

type_synonym Vec2f = "float \<times> float"
type_synonym Vec3f = "float \<times> float \<times> float"
type_synonym Mat22f = "Vec2f \<times> Vec2f"
type_synonym Mat33f = "Vec3f \<times> Vec3f \<times> Vec3f"

fun vec3_x :: "Vec3f \<Rightarrow> float" where "vec3_x (a, b, c) = a"
fun vec3_y :: "Vec3f \<Rightarrow> float" where "vec3_y (a, b, c) = b"
fun vec3_z :: "Vec3f \<Rightarrow> float" where "vec3_z (a, b, c) = c"

fun vec3_add :: "Vec3f \<Rightarrow> Vec3f \<Rightarrow> Vec3f" where
  "vec3_add (a, b, c) (d, e, f) = (a + d, b + e, c + f)"

fun vec3_scale :: "Vec3f \<Rightarrow> float \<Rightarrow> Vec3f" where
  "vec3_scale (a, b, c) s = (a * s, b * s, c * s)"

fun vec3_dot :: "Vec3f \<Rightarrow> Vec3f \<Rightarrow> float" where
  "vec3_dot (a, b, c) (d, e, f) = a * d + b * e + c * f"

fun mat33_vec :: "Mat33f \<Rightarrow> Vec3f \<Rightarrow> Vec3f" where
  "mat33_vec (r0, r1, r2) w = (vec3_dot r0 w, vec3_dot r1 w, vec3_dot r2 w)"

fun vec2_scale :: "Vec2f \<Rightarrow> float \<Rightarrow> Vec2f" where
  "vec2_scale (a, b) s = (a * s, b * s)"

fun mat22_vec :: "Mat22f \<Rightarrow> Vec2f \<Rightarrow> Vec2f" where
  "mat22_vec ((a, b), (c, d)) (x, y) = (a * x + b * y, c * x + d * y)"

text \<open>\<^verbatim>\<open>w.transpose() * G * w\<close>: the row vector times the matrix, then times \<open>w\<close>.\<close>

fun quadForm :: "Vec2f \<Rightarrow> Mat22f \<Rightarrow> float" where
  "quadForm (x, y) ((a, b), (c, d)) = (x * a + y * c) * x + (x * b + y * d) * y"

text \<open>\<^verbatim>\<open>M.topLeftCorner<2,2>()\<close>.\<close>

fun topLeftCorner22 :: "Mat33f \<Rightarrow> Mat22f" where
  "topLeftCorner22 ((a, b, c), (d, e, f), r2) = ((a, b), (d, e))"

section \<open>Data model\<close>

datatype ImmaturePointStatus =
  IPS_GOOD | IPS_OOB | IPS_OUTLIER | IPS_SKIPPED | IPS_BADCONDITION | IPS_UNINITIALIZED

datatype ResState = IN | OOB | OUTLIER

text \<open>
  The globals and settings the file reads; their declarations are in other files
  of the repository, so they are parameters here. \<open>wG0\<close> and \<open>hG0\<close> are \<^verbatim>\<open>wG[0]\<close> and
  \<^verbatim>\<open>hG[0]\<close>, \<open>patternP\<close> is the table of pattern offsets and \<^verbatim>\<open>patternNum\<close> its length.
  The number of Gauss-Newton iterations and the test radius are integers, the
  other settings are of type \<^verbatim>\<open>float\<close>. The integers are small (image sizes, loop
  counters, a radius): their arithmetic is that of \<open>int\<close>, without overflow.
\<close>

record Globals =
  wG0 :: int
  hG0 :: int
  patternP :: "(int \<times> int) list"
  setting_maxPixSearch :: float
  setting_trace_stepsize :: float
  setting_trace_GNIterations :: int
  setting_trace_GNThreshold :: float
  setting_trace_extraSlackOnTH :: float
  setting_trace_slackInterval :: float
  setting_trace_minImprovementFactor :: float
  setting_minTraceTestRadius :: int
  setting_huberTH :: float
  setting_outlierTH :: float
  setting_outlierTHSumComponent :: float
  setting_overallEnergyTHWeight :: float

definition patternNum :: "Globals \<Rightarrow> nat" where
  "patternNum g = length (patternP g)"

record FrameFramePrecalc =
  PRE_RTll :: Mat33f
  PRE_tTll :: Vec3f
  PRE_KRKiTll :: Mat33f
  PRE_KtTll :: Vec3f
  PRE_aff_mode :: Vec2f

text \<open>
  A frame. Its image \<^verbatim>\<open>dI\<close> (intensity and the two gradient channels) is read only
  through the interpolation functions of another file, so the frame carries what
  they return at a position: \<open>getInterpolatedElement31\<close> the intensity,
  \<open>getInterpolatedElement33\<close> and \<open>getInterpolatedElement33BiLin\<close> the intensity with
  the gradient. They are total here: what a read outside the image does is not
  modelled. \<open>frame_idx\<close> is the field \<^verbatim>\<open>idx\<close>, and \<open>targetPrecalc\<close> the array of the
  values precomputed for each target frame.
\<close>

record FrameHessian =
  frame_idx :: nat
  getInterpolatedElement31 :: "float \<Rightarrow> float \<Rightarrow> float"
  getInterpolatedElement33 :: "float \<Rightarrow> float \<Rightarrow> Vec3f"
  getInterpolatedElement33BiLin :: "float \<Rightarrow> float \<Rightarrow> Vec3f"
  targetPrecalc :: "nat \<Rightarrow> FrameFramePrecalc"

record CalibHessian =
  fxl :: float
  fyl :: float

text \<open>
  The immature point. The arrays \<^verbatim>\<open>color\<close> and \<^verbatim>\<open>weights\<close> have a fixed size and
  are read at the indices below \<^verbatim>\<open>patternNum\<close> only; they are functions of the index.
\<close>

record ImmaturePoint =
  color :: "nat \<Rightarrow> float"
  weights :: "nat \<Rightarrow> float"
  gradH :: Mat22f
  u :: float
  v :: float
  host :: FrameHessian
  idepth_min :: float
  idepth_max :: float
  energyTH :: float
  quality :: float
  my_type :: float
  idepth_GT :: float
  lastTraceStatus :: ImmaturePointStatus
  lastTraceUV :: Vec2f
  lastTracePixelInterval :: float

record ImmaturePointTemporaryResidual =
  state_state :: ResState
  state_energy :: float
  state_NewState :: ResState
  state_NewEnergy :: float
  target :: FrameHessian

section \<open>Epipolar search: \<^verbatim>\<open>ImmaturePoint::traceOn\<close>\<close>

text \<open>
  A return of \<^verbatim>\<open>traceOn\<close> that stores the traced position, the pixel interval
  and the status in the point and gives the status back.
\<close>

definition trace_return ::
  "ImmaturePoint \<Rightarrow> Vec2f \<Rightarrow> float \<Rightarrow> ImmaturePointStatus
     \<Rightarrow> ImmaturePointStatus \<times> ImmaturePoint" where
  "trace_return p uv interval st =
     (st, p\<lparr>lastTraceStatus := st, lastTraceUV := uv, lastTracePixelInterval := interval\<rparr>)"

text \<open>The border test \<^verbatim>\<open>x > 4 && y > 4 && x < wG[0] - 5 && y < hG[0] - 5\<close>.\<close>

definition inImage :: "Globals \<Rightarrow> float \<Rightarrow> float \<Rightarrow> bool" where
  "inImage g x y =
     (Fin 4 < x \<and> Fin 4 < y \<and> x < float_of_int (wG0 g - 5) \<and> y < float_of_int (hG0 g - 5))"

text \<open>What the first part of \<^verbatim>\<open>traceOn\<close> hands to the search.\<close>

record TraceSetup =
  ts_pr :: Vec3f
  ts_dx :: float
  ts_dy :: float
  ts_errorInPixel :: float
  ts_numSteps :: int
  ts_ptx :: float
  ts_pty :: float
  ts_rotatetPattern :: "Vec2f list"

text \<open>
  \<^verbatim>\<open>pr = hostToFrame_KRKi * Vec3f(u, v, 1)\<close>, the projection \<^verbatim>\<open>pr + hostToFrame_Kt * idepth\<close>
  at an inverse depth, and its pixel \<^verbatim>\<open>(ptp[0] / ptp[2], ptp[1] / ptp[2])\<close>.
\<close>

definition trace_pr :: "Mat33f \<Rightarrow> ImmaturePoint \<Rightarrow> Vec3f" where
  "trace_pr hostToFrame_KRKi p = mat33_vec hostToFrame_KRKi (u p, v p, Fin 1)"

definition trace_ptp :: "Vec3f \<Rightarrow> Vec3f \<Rightarrow> float \<Rightarrow> Vec3f" where
  "trace_ptp pr hostToFrame_Kt idepth = vec3_add pr (vec3_scale hostToFrame_Kt idepth)"

definition trace_pixel :: "Vec3f \<Rightarrow> Vec2f" where
  "trace_pixel ptp = (vec3_x ptp / vec3_z ptp, vec3_y ptp / vec3_z ptp)"

text \<open>\<^verbatim>\<open>sqrtf((uMin - uMax) * (uMin - uMax) + (vMin - vMax) * (vMin - vMax))\<close>.\<close>

definition trace_dist :: "Vec2f \<Rightarrow> Vec2f \<Rightarrow> float" where
  "trace_dist uvMin uvMax =
     sqrtf ((fst uvMin - fst uvMax) * (fst uvMin - fst uvMax)
            + (snd uvMin - snd uvMax) * (snd uvMin - snd uvMax))"

text \<open>
  The end points of the search segment (lines 141 to 199): an early return, or
  \<open>(dist', uMax, vMax)\<close>, where \<open>dist'\<close> is the variable \<^verbatim>\<open>dist\<close>. The two
  \<^verbatim>\<open>assert(dist > 0)\<close> are left out (see \<open>trace_endpoints_assert\<close> below).
\<close>

definition trace_endpoints ::
  "Globals \<Rightarrow> Vec3f \<Rightarrow> Vec3f \<Rightarrow> float \<Rightarrow> float \<Rightarrow> ImmaturePoint
     \<Rightarrow> (ImmaturePointStatus \<times> ImmaturePoint) + (float \<times> float \<times> float)" where
  "trace_endpoints g hostToFrame_Kt pr uMin vMin p =
     (let maxPixSearch = float_of_int (wG0 g + hG0 g) * setting_maxPixSearch g in
      if isfinite (idepth_max p) then
        (let ptpMax = trace_ptp pr hostToFrame_Kt (idepth_max p);
             uMax = fst (trace_pixel ptpMax);
             vMax = snd (trace_pixel ptpMax)
         in if \<not> inImage g uMax vMax
            then Inl (trace_return p (Fin (- 1), Fin (- 1)) (Fin 0) IPS_OOB)
            else
              (let dist' = trace_dist (uMin, vMin) (uMax, vMax)
               in if dist' < setting_trace_slackInterval g
                  then Inl (trace_return p (vec2_scale (uMax + uMin, vMax + vMin) (Fin 0.5))
                              dist' IPS_SKIPPED)
                  else Inr (dist', uMax, vMax)))
      else
        (let dist' = maxPixSearch;
             ptpMax = trace_ptp pr hostToFrame_Kt (Fin 0.01);
             uMax = fst (trace_pixel ptpMax);
             vMax = snd (trace_pixel ptpMax);
             dx = uMax - uMin;
             dy = vMax - vMin;
             d = Fin 1 / sqrtf (dx * dx + dy * dy);
             uMax = uMin + dist' * dx * d;
             vMax = vMin + dist' * dy * d
         in if \<not> inImage g uMax vMax
            then Inl (trace_return p (Fin (- 1), Fin (- 1)) (Fin 0) IPS_OOB)
            else Inr (dist', uMax, vMax)))"

text \<open>
  The error bound and the set-up of the discrete search (lines 211 to 270), from
  the end points of the segment.
\<close>

definition trace_prepare ::
  "Globals \<Rightarrow> Mat33f \<Rightarrow> Vec3f \<Rightarrow> float \<Rightarrow> float \<Rightarrow> float \<Rightarrow> float \<Rightarrow> float \<Rightarrow> ImmaturePoint
     \<Rightarrow> (ImmaturePointStatus \<times> ImmaturePoint) + TraceSetup" where
  "trace_prepare g hostToFrame_KRKi pr uMin vMin dist' uMax vMax p =
     (let maxPixSearch = float_of_int (wG0 g + hG0 g) * setting_maxPixSearch g;
          dx = setting_trace_stepsize g * (uMax - uMin);
          dy = setting_trace_stepsize g * (vMax - vMin);
          a = quadForm (dx, dy) (gradH p);
          b = quadForm (dy, - dx) (gradH p);
          errorInPixel = Fin 0.2 + Fin 0.2 * (a + b) / a
      in if dist' < errorInPixel * setting_trace_minImprovementFactor g \<and> isfinite (idepth_max p)
         then Inl (trace_return p (vec2_scale (uMax + uMin, vMax + vMin) (Fin 0.5))
                     dist' IPS_BADCONDITION)
         else
           (let errorInPixel = (if Fin 10 < errorInPixel then Fin 10 else errorInPixel);
                dx = dx / dist';
                dy = dy / dist';
                dist' = (if maxPixSearch < dist' then maxPixSearch else dist');
                numSteps = int_of_float (Fin 1.9999 + dist' / setting_trace_stepsize g);
                Rplane = topLeftCorner22 hostToFrame_KRKi;
                randShift = uMin * Fin 1000 - floorf (uMin * Fin 1000);
                ptx = uMin - randShift * dx;
                pty = vMin - randShift * dy;
                rotatetPattern =
                  map (\<lambda>(px, py). mat22_vec Rplane (float_of_int px, float_of_int py))
                    (patternP g)
            in if \<not> isfinite dx \<or> \<not> isfinite dy
               then Inl (trace_return p (Fin (- 1), Fin (- 1)) (Fin 0) IPS_OOB)
               else Inr \<lparr>ts_pr = pr, ts_dx = dx, ts_dy = dy,
                         ts_errorInPixel = errorInPixel, ts_numSteps = numSteps,
                         ts_ptx = ptx, ts_pty = pty,
                         ts_rotatetPattern = rotatetPattern\<rparr>))"

text \<open>
  Lines 121 to 270: the projection of the interval's end points, the tests that
  return early, and the set-up of the discrete search.
\<close>

definition trace_setup ::
  "Globals \<Rightarrow> Mat33f \<Rightarrow> Vec3f \<Rightarrow> ImmaturePoint
     \<Rightarrow> (ImmaturePointStatus \<times> ImmaturePoint) + TraceSetup" where
  "trace_setup g hostToFrame_KRKi hostToFrame_Kt p =
     (let pr = trace_pr hostToFrame_KRKi p;
          ptpMin = trace_ptp pr hostToFrame_Kt (idepth_min p);
          uMin = fst (trace_pixel ptpMin);
          vMin = snd (trace_pixel ptpMin)
      in if \<not> inImage g uMin vMin
         then Inl (trace_return p (Fin (- 1), Fin (- 1)) (Fin 0) IPS_OOB)
         else
           (case trace_endpoints g hostToFrame_Kt pr uMin vMin p of
              Inl r \<Rightarrow> Inl r
            | Inr (dist', uMax, vMax) \<Rightarrow>
                if \<not> (idepth_min p < Fin 0
                       \<or> (Fin 0.75 < vec3_z ptpMin \<and> vec3_z ptpMin < Fin 1.5))
                then Inl (trace_return p (Fin (- 1), Fin (- 1)) (Fin 0) IPS_OOB)
                else trace_prepare g hostToFrame_KRKi pr uMin vMin dist' uMax vMax p))"

text \<open>
  The test under which \<^verbatim>\<open>traceOn\<close> returns the skipped status (lines 147 to 172):
  \<^verbatim>\<open>idepth_max\<close> is finite, its projection passes the border test and the two
  projections are closer than \<^verbatim>\<open>setting_trace_slackInterval\<close>.
\<close>

definition trace_skips :: "Globals \<Rightarrow> Mat33f \<Rightarrow> Vec3f \<Rightarrow> ImmaturePoint \<Rightarrow> bool" where
  "trace_skips g hostToFrame_KRKi hostToFrame_Kt p =
     (let pr = trace_pr hostToFrame_KRKi p;
          uvMin = trace_pixel (trace_ptp pr hostToFrame_Kt (idepth_min p));
          uvMax = trace_pixel (trace_ptp pr hostToFrame_Kt (idepth_max p))
      in isfinite (idepth_max p) \<and> inImage g (fst uvMax) (snd uvMax)
         \<and> trace_dist uvMin uvMax < setting_trace_slackInterval g)"

text \<open>The Huber weight \<^verbatim>\<open>fabs(residual) < setting_huberTH ? 1 : setting_huberTH / fabs(residual)\<close>.\<close>

definition huberWeight :: "Globals \<Rightarrow> float \<Rightarrow> float" where
  "huberWeight g residual =
     (if \<bar>residual\<bar> < setting_huberTH g then Fin 1 else setting_huberTH g / \<bar>residual\<bar>)"

text \<open>
  The energy of one step of the discrete search (lines 279 to 293): the loop over
  the pattern, from index \<open>idx\<close>, with the energy accumulated so far.
\<close>

fun trace_stepEnergy ::
  "Globals \<Rightarrow> FrameHessian \<Rightarrow> Vec2f \<Rightarrow> ImmaturePoint \<Rightarrow> float \<Rightarrow> float
     \<Rightarrow> Vec2f list \<Rightarrow> nat \<Rightarrow> float \<Rightarrow> float" where
  "trace_stepEnergy g frame hostToFrame_affine p ptx pty [] idx energy = energy"
| "trace_stepEnergy g frame hostToFrame_affine p ptx pty (rp # rps) idx energy =
     (let hitColor = getInterpolatedElement31 frame (ptx + fst rp) (pty + snd rp)
      in if \<not> isfinite hitColor
         then trace_stepEnergy g frame hostToFrame_affine p ptx pty rps (Suc idx)
                (energy + Fin 100000)
         else
           (let residual =
                  hitColor - (fst hostToFrame_affine * color p idx + snd hostToFrame_affine);
                hw = huberWeight g residual
            in trace_stepEnergy g frame hostToFrame_affine p ptx pty rps (Suc idx)
                 (energy + hw * residual * residual * (Fin 2 - hw))))"

text \<open>The state of the discrete search: the energies so far and the best step.\<close>

record DiscreteSearch =
  ds_errors :: "float list"
  ds_bestU :: float
  ds_bestV :: float
  ds_bestEnergy :: float
  ds_bestIdx :: int

text \<open>
  The loop over the steps (lines 278 to 310), with the steps still to do, the
  index \<open>i\<close> and the position of the step.
\<close>

fun trace_discreteSearch ::
  "Globals \<Rightarrow> FrameHessian \<Rightarrow> Vec2f \<Rightarrow> ImmaturePoint \<Rightarrow> TraceSetup
     \<Rightarrow> nat \<Rightarrow> int \<Rightarrow> float \<Rightarrow> float \<Rightarrow> DiscreteSearch \<Rightarrow> DiscreteSearch" where
  "trace_discreteSearch g frame hostToFrame_affine p ts 0 i ptx pty s = s"
| "trace_discreteSearch g frame hostToFrame_affine p ts (Suc n) i ptx pty s =
     (let energy = trace_stepEnergy g frame hostToFrame_affine p ptx pty
                     (ts_rotatetPattern ts) 0 (Fin 0);
          s = s\<lparr>ds_errors := ds_errors s @ [energy]\<rparr>;
          s = (if energy < ds_bestEnergy s
               then s\<lparr>ds_bestU := ptx, ds_bestV := pty, ds_bestEnergy := energy, ds_bestIdx := i\<rparr>
               else s)
      in trace_discreteSearch g frame hostToFrame_affine p ts n (i + 1)
           (ptx + ts_dx ts) (pty + ts_dy ts) s)"

text \<open>The best energy outside the radius around the best step (lines 314 to 319).\<close>

fun trace_secondBest :: "Globals \<Rightarrow> int \<Rightarrow> float list \<Rightarrow> int \<Rightarrow> float \<Rightarrow> float" where
  "trace_secondBest g bestIdx [] i secondBest = secondBest"
| "trace_secondBest g bestIdx (e # es) i secondBest =
     trace_secondBest g bestIdx es (i + 1)
       (if (i < bestIdx - setting_minTraceTestRadius g
            \<or> bestIdx + setting_minTraceTestRadius g < i) \<and> e < secondBest
        then e else secondBest)"

text \<open>
  The discrete search from its start (lines 273 to 310); \<open>numSteps\<close> is capped
  at 99 first.
\<close>

definition trace_numSteps :: "TraceSetup \<Rightarrow> int" where
  "trace_numSteps ts = (if 100 \<le> ts_numSteps ts then 99 else ts_numSteps ts)"

definition trace_search ::
  "Globals \<Rightarrow> FrameHessian \<Rightarrow> Vec2f \<Rightarrow> ImmaturePoint \<Rightarrow> TraceSetup \<Rightarrow> DiscreteSearch" where
  "trace_search g frame hostToFrame_affine p ts =
     trace_discreteSearch g frame hostToFrame_affine p ts (nat (trace_numSteps ts)) 0
       (ts_ptx ts) (ts_pty ts)
       \<lparr>ds_errors = [], ds_bestU = Fin 0, ds_bestV = Fin 0,
        ds_bestEnergy = Fin 10000000000, ds_bestIdx = - 1\<rparr>"

text \<open>\<^verbatim>\<open>newQuality\<close> (lines 314 to 331) and the update of the quality (line 332).\<close>

definition trace_newQuality :: "Globals \<Rightarrow> DiscreteSearch \<Rightarrow> float" where
  "trace_newQuality g s =
     trace_secondBest g (ds_bestIdx s) (ds_errors s) 0 (Fin 10000000000) / ds_bestEnergy s"

definition trace_updateQuality :: "float \<Rightarrow> int \<Rightarrow> ImmaturePoint \<Rightarrow> ImmaturePoint" where
  "trace_updateQuality newQuality numSteps p =
     (if newQuality < quality p \<or> 10 < numSteps then p\<lparr>quality := newQuality\<rparr> else p)"

text \<open>
  The sums of one Gauss-Newton iteration (lines 340 to 357): \<open>(H, b, energy)\<close>
  over the pattern, from index \<open>idx\<close>.
\<close>

fun trace_gnSums ::
  "Globals \<Rightarrow> FrameHessian \<Rightarrow> Vec2f \<Rightarrow> ImmaturePoint \<Rightarrow> float \<Rightarrow> float \<Rightarrow> float \<Rightarrow> float
     \<Rightarrow> Vec2f list \<Rightarrow> nat \<Rightarrow> float \<times> float \<times> float \<Rightarrow> float \<times> float \<times> float" where
  "trace_gnSums g frame hostToFrame_affine p dx dy bestU bestV [] idx acc = acc"
| "trace_gnSums g frame hostToFrame_affine p dx dy bestU bestV (rp # rps) idx (H, b, energy) =
     (let hitColor = getInterpolatedElement33 frame (bestU + fst rp) (bestV + snd rp)
      in if \<not> isfinite (vec3_x hitColor)
         then trace_gnSums g frame hostToFrame_affine p dx dy bestU bestV rps (Suc idx)
                (H, b, energy + Fin 100000)
         else
           (let residual =
                  vec3_x hitColor
                    - (fst hostToFrame_affine * color p idx + snd hostToFrame_affine);
                dResdDist = dx * vec3_y hitColor + dy * vec3_z hitColor;
                hw = huberWeight g residual
            in trace_gnSums g frame hostToFrame_affine p dx dy bestU bestV rps (Suc idx)
                 (H + hw * dResdDist * dResdDist,
                  b + hw * residual * dResdDist,
                  energy + weights p idx * weights p idx * hw * residual * residual * (Fin 2 - hw))))"

text \<open>The state of the Gauss-Newton optimisation.\<close>

record GNState =
  gn_bestU :: float
  gn_bestV :: float
  gn_bestEnergy :: float
  gn_uBak :: float
  gn_vBak :: float
  gn_stepBack :: float

text \<open>One iteration (lines 340 to 392); \<^verbatim>\<open>gnstepsize\<close> is 1.\<close>

definition trace_gnIteration ::
  "Globals \<Rightarrow> FrameHessian \<Rightarrow> Vec2f \<Rightarrow> ImmaturePoint \<Rightarrow> TraceSetup \<Rightarrow> GNState \<Rightarrow> GNState" where
  "trace_gnIteration g frame hostToFrame_affine p ts s =
     (case trace_gnSums g frame hostToFrame_affine p (ts_dx ts) (ts_dy ts)
             (gn_bestU s) (gn_bestV s) (ts_rotatetPattern ts) 0 (Fin 1, Fin 0, Fin 0) of
        (H, b, energy) \<Rightarrow>
          if gn_bestEnergy s < energy
          then
            (let stepBack = gn_stepBack s * Fin 0.5
             in s\<lparr>gn_stepBack := stepBack,
                  gn_bestU := gn_uBak s + stepBack * ts_dx ts,
                  gn_bestV := gn_vBak s + stepBack * ts_dy ts\<rparr>)
          else
            (let step = - Fin 1 * b / H;
                 step = (if step < Fin (- 0.5) then Fin (- 0.5)
                         else if Fin 0.5 < step then Fin 0.5 else step);
                 step = (if \<not> isfinite step then Fin 0 else step)
             in s\<lparr>gn_uBak := gn_bestU s,
                  gn_vBak := gn_bestV s,
                  gn_stepBack := step,
                  gn_bestU := gn_bestU s + step * ts_dx ts,
                  gn_bestV := gn_bestV s + step * ts_dy ts,
                  gn_bestEnergy := energy\<rparr>))"

text \<open>The loop (lines 339 to 395), with the iterations still to do.\<close>

fun trace_gnLoop ::
  "Globals \<Rightarrow> FrameHessian \<Rightarrow> Vec2f \<Rightarrow> ImmaturePoint \<Rightarrow> TraceSetup \<Rightarrow> nat \<Rightarrow> GNState \<Rightarrow> GNState" where
  "trace_gnLoop g frame hostToFrame_affine p ts 0 s = s"
| "trace_gnLoop g frame hostToFrame_affine p ts (Suc n) s =
     (let s = trace_gnIteration g frame hostToFrame_affine p ts s
      in if \<bar>gn_stepBack s\<bar> < setting_trace_GNThreshold g then s
         else trace_gnLoop g frame hostToFrame_affine p ts n s)"

text \<open>The optimisation from its start (lines 336 to 395).\<close>

definition trace_gn ::
  "Globals \<Rightarrow> FrameHessian \<Rightarrow> Vec2f \<Rightarrow> ImmaturePoint \<Rightarrow> TraceSetup \<Rightarrow> DiscreteSearch \<Rightarrow> GNState" where
  "trace_gn g frame hostToFrame_affine p ts ds =
     trace_gnLoop g frame hostToFrame_affine p ts (nat (setting_trace_GNIterations g))
       \<lparr>gn_bestU = ds_bestU ds, gn_bestV = ds_bestV ds,
        gn_bestEnergy = (if 0 < setting_trace_GNIterations g then Fin 100000 else ds_bestEnergy ds),
        gn_uBak = ds_bestU ds, gn_vBak = ds_bestV ds, gn_stepBack = Fin 0\<rparr>"

text \<open>The new interval (lines 420 to 431), before it is tested.\<close>

definition trace_newInterval :: "Vec3f \<Rightarrow> TraceSetup \<Rightarrow> float \<Rightarrow> float \<Rightarrow> float \<times> float" where
  "trace_newInterval hostToFrame_Kt ts bestU bestV =
     (let pr = ts_pr ts; dx = ts_dx ts; dy = ts_dy ts; errorInPixel = ts_errorInPixel ts;
          (imin, imax) =
            (if dy * dy < dx * dx
             then ((vec3_z pr * (bestU - errorInPixel * dx) - vec3_x pr)
                     / (vec3_x hostToFrame_Kt - vec3_z hostToFrame_Kt * (bestU - errorInPixel * dx)),
                   (vec3_z pr * (bestU + errorInPixel * dx) - vec3_x pr)
                     / (vec3_x hostToFrame_Kt - vec3_z hostToFrame_Kt * (bestU + errorInPixel * dx)))
             else ((vec3_z pr * (bestV - errorInPixel * dy) - vec3_y pr)
                     / (vec3_y hostToFrame_Kt - vec3_z hostToFrame_Kt * (bestV - errorInPixel * dy)),
                   (vec3_z pr * (bestV + errorInPixel * dy) - vec3_y pr)
                     / (vec3_y hostToFrame_Kt - vec3_z hostToFrame_Kt * (bestV + errorInPixel * dy))))
      in if imax < imin then (imax, imin) else (imin, imax))"

text \<open>
  The end of \<^verbatim>\<open>traceOn\<close> (lines 402 to 444): the outlier test on the energy,
  the new interval and its test.
\<close>

definition trace_finish ::
  "Globals \<Rightarrow> Vec3f \<Rightarrow> ImmaturePoint \<Rightarrow> TraceSetup \<Rightarrow> GNState
     \<Rightarrow> ImmaturePointStatus \<times> ImmaturePoint" where
  "trace_finish g hostToFrame_Kt p ts s =
     (if \<not> (gn_bestEnergy s < energyTH p * setting_trace_extraSlackOnTH g)
      then
        (if lastTraceStatus p = IPS_OUTLIER
         then trace_return p (Fin (- 1), Fin (- 1)) (Fin 0) IPS_OOB
         else trace_return p (Fin (- 1), Fin (- 1)) (Fin 0) IPS_OUTLIER)
      else
        (case trace_newInterval hostToFrame_Kt ts (gn_bestU s) (gn_bestV s) of
           (imin, imax) \<Rightarrow>
             (let p = p\<lparr>idepth_min := imin, idepth_max := imax\<rparr>
              in if \<not> isfinite (idepth_min p) \<or> \<not> isfinite (idepth_max p)
                    \<or> idepth_max p < Fin 0
                 then trace_return p (Fin (- 1), Fin (- 1)) (Fin 0) IPS_OUTLIER
                 else trace_return p (gn_bestU s, gn_bestV s)
                        (Fin 2 * ts_errorInPixel ts) IPS_GOOD)))"

text \<open>
  \<^verbatim>\<open>ImmaturePoint::traceOn\<close>: the status returned and the point after the call.
  \<^verbatim>\<open>HCalib\<close> is not read and \<^verbatim>\<open>debugPrint\<close> is set to false on entry.
\<close>

definition traceOn ::
  "Globals \<Rightarrow> FrameHessian \<Rightarrow> Mat33f \<Rightarrow> Vec3f \<Rightarrow> Vec2f \<Rightarrow> ImmaturePoint
     \<Rightarrow> ImmaturePointStatus \<times> ImmaturePoint" where
  "traceOn g frame hostToFrame_KRKi hostToFrame_Kt hostToFrame_affine p =
     (if lastTraceStatus p = IPS_OOB then (lastTraceStatus p, p)
      else
        (case trace_setup g hostToFrame_KRKi hostToFrame_Kt p of
           Inl r \<Rightarrow> r
         | Inr ts \<Rightarrow>
             (let ds = trace_search g frame hostToFrame_affine p ts;
                  p = trace_updateQuality (trace_newQuality g ds) (trace_numSteps ts) p;
                  s = trace_gn g frame hostToFrame_affine p ts ds
              in trace_finish g hostToFrame_Kt p ts s)))"

text \<open>
  A sequence of calls of \<^verbatim>\<open>traceOn\<close> on one point, each with its target frame,
  its relative pose and its brightness mapping: the point after the last call.
\<close>

fun traceOn_calls ::
  "Globals \<Rightarrow> (FrameHessian \<times> Mat33f \<times> Vec3f \<times> Vec2f) list \<Rightarrow> ImmaturePoint
     \<Rightarrow> ImmaturePoint" where
  "traceOn_calls g [] p = p"
| "traceOn_calls g ((frame, hostToFrame_KRKi, hostToFrame_Kt, hostToFrame_affine) # calls) p =
     traceOn_calls g calls
       (snd (traceOn g frame hostToFrame_KRKi hostToFrame_Kt hostToFrame_affine p))"

section \<open>Construction\<close>

text \<open>
  The loop of the constructor (lines 38 to 66) over the pattern, from index \<open>idx\<close>:
  the point, and whether the loop ran to its end (it returns from the constructor
  at the first sample that is not finite).
\<close>

fun ImmaturePoint_pattern ::
  "Globals \<Rightarrow> (int \<times> int) list \<Rightarrow> nat \<Rightarrow> ImmaturePoint \<Rightarrow> bool \<times> ImmaturePoint" where
  "ImmaturePoint_pattern g [] idx p = (True, p)"
| "ImmaturePoint_pattern g ((dx, dy) # ps) idx p =
     (let ptc = getInterpolatedElement33BiLin (host p)
                  (u p + float_of_int dx) (v p + float_of_int dy);
          p = p\<lparr>color := (color p)(idx := vec3_x ptc)\<rparr>
      in if \<not> isfinite (color p idx) then (False, p\<lparr>energyTH := NaN\<rparr>)
         else
           (let gx = vec3_y ptc; gy = vec3_z ptc;
                ((a, b), (c, d)) = gradH p;
                p = p\<lparr>gradH := ((a + gx * gx, b + gx * gy), (c + gy * gx, d + gy * gy))\<rparr>;
                p = p\<lparr>weights := (weights p)(idx :=
                      sqrtf (setting_outlierTHSumComponent g
                               / (setting_outlierTHSumComponent g + (gx * gx + gy * gy))))\<rparr>
            in ImmaturePoint_pattern g ps (Suc idx) p))"

text \<open>
  The constructor, with \<open>u0\<close>, \<open>v0\<close> and \<open>host0\<close> for its parameters \<^verbatim>\<open>u_\<close>, \<^verbatim>\<open>v_\<close>
  and \<^verbatim>\<open>host_\<close>. The fields it does not set keep what the memory held, given by
  \<open>raw\<close>; \<^verbatim>\<open>HCalib\<close> is not read.
\<close>

definition ImmaturePoint_new ::
  "Globals \<Rightarrow> int \<Rightarrow> int \<Rightarrow> FrameHessian \<Rightarrow> float \<Rightarrow> ImmaturePoint \<Rightarrow> ImmaturePoint" where
  "ImmaturePoint_new g u0 v0 host0 type raw =
     (let p = raw\<lparr>u := float_of_int u0, v := float_of_int v0, host := host0, my_type := type,
                   idepth_min := Fin 0, idepth_max := NaN,
                   lastTraceStatus := IPS_UNINITIALIZED\<rparr>;
          p = p\<lparr>gradH := ((Fin 0, Fin 0), (Fin 0, Fin 0))\<rparr>
      in case ImmaturePoint_pattern g (patternP g) 0 p of
           (False, p) \<Rightarrow> p
         | (True, p) \<Rightarrow>
             (let p = p\<lparr>energyTH := float_of_int (int (patternNum g)) * setting_outlierTH g\<rparr>;
                  p = p\<lparr>energyTH := energyTH p
                         * (setting_overallEnergyTHWeight g * setting_overallEnergyTHWeight g)\<rparr>
              in p\<lparr>idepth_GT := Fin 0, quality := Fin 10000\<rparr>))"

section \<open>Residuals\<close>

text \<open>
  The projection functions are in another file of the repository
  (\<^verbatim>\<open>ResidualProjections.h\<close>); they are parameters here. A projection returns
  whether it succeeded and what its reference parameters hold after the call.
\<close>

record ProjectedPoint =
  pp_drescale :: float
  pp_u :: float
  pp_v :: float
  pp_Ku :: float
  pp_Kv :: float
  pp_KliP :: Vec3f
  pp_new_idepth :: float

record ResidualProjections =
  projectPoint_KRKi :: "float \<Rightarrow> float \<Rightarrow> float \<Rightarrow> Mat33f \<Rightarrow> Vec3f \<Rightarrow> bool \<times> float \<times> float"
  projectPoint ::
    "float \<Rightarrow> float \<Rightarrow> float \<Rightarrow> int \<Rightarrow> int \<Rightarrow> CalibHessian \<Rightarrow> Mat33f \<Rightarrow> Vec3f
       \<Rightarrow> bool \<times> ProjectedPoint"
  derive_idepth ::
    "Vec3f \<Rightarrow> float \<Rightarrow> float \<Rightarrow> int \<Rightarrow> int \<Rightarrow> float \<Rightarrow> float \<Rightarrow> float \<Rightarrow> float"

text \<open>\<^verbatim>\<open>&(host->targetPrecalc[tmpRes->target->idx])\<close>.\<close>

definition precalcOf :: "ImmaturePoint \<Rightarrow> ImmaturePointTemporaryResidual \<Rightarrow> FrameFramePrecalc" where
  "precalcOf p tmpRes = targetPrecalc (host p) (frame_idx (target tmpRes))"

text \<open>
  \<^verbatim>\<open>ImmaturePoint::getdPixdd\<close>: the value returned, and the point and the
  residual after the call. The result of \<^verbatim>\<open>projectPoint\<close> is not tested.
\<close>

definition getdPixdd ::
  "ResidualProjections \<Rightarrow> CalibHessian \<Rightarrow> float
     \<Rightarrow> ImmaturePoint \<times> ImmaturePointTemporaryResidual
     \<Rightarrow> float \<times> ImmaturePoint \<times> ImmaturePointTemporaryResidual" where
  "getdPixdd rp HCalib idepth st =
     (case st of (p, tmpRes) \<Rightarrow>
        (let precalc = precalcOf p tmpRes;
             t = PRE_tTll precalc;
             pp = snd (projectPoint rp (u p) (v p) idepth 0 0 HCalib (PRE_RTll precalc) t);
             dxdd = (vec3_x t - vec3_z t * pp_u pp) * fxl HCalib;
             dydd = (vec3_y t - vec3_z t * pp_v pp) * fyl HCalib
         in (pp_drescale pp * sqrtf (dxdd * dxdd + dydd * dydd), p, tmpRes)))"

text \<open>
  The loop of \<^verbatim>\<open>calcResidual\<close> (lines 479 to 492) over the pattern, from index
  \<open>idx\<close>: \<open>Inl r\<close> when it returns \<open>r\<close> from the function, \<open>Inr energyLeft\<close> when it
  runs to its end.
\<close>

fun calcResidual_loop ::
  "Globals \<Rightarrow> ResidualProjections \<Rightarrow> ImmaturePoint \<Rightarrow> ImmaturePointTemporaryResidual \<Rightarrow> float
     \<Rightarrow> (int \<times> int) list \<Rightarrow> nat \<Rightarrow> float \<Rightarrow> float + float" where
  "calcResidual_loop g rp p tmpRes idepth [] idx energyLeft = Inr energyLeft"
| "calcResidual_loop g rp p tmpRes idepth ((px, py) # ps) idx energyLeft =
     (case projectPoint_KRKi rp (u p + float_of_int px) (v p + float_of_int py) idepth
             (PRE_KRKiTll (precalcOf p tmpRes)) (PRE_KtTll (precalcOf p tmpRes)) of
        (ok, Ku, Kv) \<Rightarrow>
          if \<not> ok then Inl (Fin 10000000000)
          else
            (let hitColor = getInterpolatedElement33 (target tmpRes) Ku Kv
             in if \<not> isfinite (vec3_x hitColor) then Inl (Fin 10000000000)
                else
                  (let affLL = PRE_aff_mode (precalcOf p tmpRes);
                       residual = vec3_x hitColor - (fst affLL * color p idx + snd affLL);
                       hw = huberWeight g residual
                   in calcResidual_loop g rp p tmpRes idepth ps (Suc idx)
                        (energyLeft
                           + weights p idx * weights p idx * hw * residual * residual
                               * (Fin 2 - hw)))))"

text \<open>
  \<^verbatim>\<open>ImmaturePoint::calcResidual\<close>: the energy returned, and the point and the
  residual after the call. \<^verbatim>\<open>HCalib\<close> is not read.
\<close>

definition calcResidual ::
  "Globals \<Rightarrow> ResidualProjections \<Rightarrow> float \<Rightarrow> float
     \<Rightarrow> ImmaturePoint \<times> ImmaturePointTemporaryResidual
     \<Rightarrow> float \<times> ImmaturePoint \<times> ImmaturePointTemporaryResidual" where
  "calcResidual g rp outlierTHSlack idepth st =
     (case st of (p, tmpRes) \<Rightarrow>
        (case calcResidual_loop g rp p tmpRes idepth (patternP g) 0 (Fin 0) of
           Inl r \<Rightarrow> (r, p, tmpRes)
         | Inr energyLeft \<Rightarrow>
             (if energyTH p * outlierTHSlack < energyLeft
              then (energyTH p * outlierTHSlack, p, tmpRes)
              else (energyLeft, p, tmpRes))))"

text \<open>
  The loop of \<^verbatim>\<open>linearizeResidual\<close> (lines 526 to 576) over the pattern, from
  index \<open>idx\<close>, on \<open>(energyLeft, Hdd, bd)\<close>: \<open>Inl (Hdd, bd)\<close> when a projection or a
  sample fails, with what the two references hold then, \<open>Inr (energyLeft, Hdd, bd)\<close>
  when it runs to its end.
\<close>

fun linearizeResidual_loop ::
  "Globals \<Rightarrow> ResidualProjections \<Rightarrow> CalibHessian \<Rightarrow> ImmaturePoint
     \<Rightarrow> ImmaturePointTemporaryResidual \<Rightarrow> float \<Rightarrow> (int \<times> int) list \<Rightarrow> nat
     \<Rightarrow> float \<times> float \<times> float \<Rightarrow> (float \<times> float) + (float \<times> float \<times> float)" where
  "linearizeResidual_loop g rp HCalib p tmpRes idepth [] idx acc = Inr acc"
| "linearizeResidual_loop g rp HCalib p tmpRes idepth ((dx, dy) # ps) idx (energyLeft, Hdd, bd) =
     (case projectPoint rp (u p) (v p) idepth dx dy HCalib
             (PRE_RTll (precalcOf p tmpRes)) (PRE_tTll (precalcOf p tmpRes)) of
        (ok, pp) \<Rightarrow>
          if \<not> ok then Inl (Hdd, bd)
          else
            (let hitColor = getInterpolatedElement33 (target tmpRes) (pp_Ku pp) (pp_Kv pp)
             in if \<not> isfinite (vec3_x hitColor) then Inl (Hdd, bd)
                else
                  (let affLL = PRE_aff_mode (precalcOf p tmpRes);
                       residual = vec3_x hitColor - (fst affLL * color p idx + snd affLL);
                       hw = huberWeight g residual;
                       energyLeft = energyLeft
                         + weights p idx * weights p idx * hw * residual * residual * (Fin 2 - hw);
                       dxInterp = vec3_y hitColor * fxl HCalib;
                       dyInterp = vec3_z hitColor * fyl HCalib;
                       d_idepth = derive_idepth rp (PRE_tTll (precalcOf p tmpRes))
                                    (pp_u pp) (pp_v pp) dx dy dxInterp dyInterp (pp_drescale pp);
                       hw = hw * (weights p idx * weights p idx)
                   in linearizeResidual_loop g rp HCalib p tmpRes idepth ps (Suc idx)
                        (energyLeft, Hdd + (hw * d_idepth) * d_idepth,
                         bd + (hw * residual) * d_idepth))))"

text \<open>
  \<^verbatim>\<open>ImmaturePoint::linearizeResidual\<close>: the energy returned, the point and the
  residual after the call, and what the references \<^verbatim>\<open>Hdd\<close> and \<^verbatim>\<open>bd\<close> hold then.
\<close>

definition linearizeResidual ::
  "Globals \<Rightarrow> ResidualProjections \<Rightarrow> CalibHessian \<Rightarrow> float \<Rightarrow> float
     \<Rightarrow> ImmaturePoint \<times> ImmaturePointTemporaryResidual \<Rightarrow> float \<times> float
     \<Rightarrow> float \<times> (ImmaturePoint \<times> ImmaturePointTemporaryResidual) \<times> (float \<times> float)" where
  "linearizeResidual g rp HCalib outlierTHSlack idepth st refs =
     (case (st, refs) of ((p, tmpRes), (Hdd, bd)) \<Rightarrow>
        if state_state tmpRes = OOB
        then (state_energy tmpRes, (p, tmpRes\<lparr>state_NewState := OOB\<rparr>), (Hdd, bd))
        else
          (case linearizeResidual_loop g rp HCalib p tmpRes idepth (patternP g) 0
                  (Fin 0, Hdd, bd) of
             Inl (Hdd, bd) \<Rightarrow>
               (state_energy tmpRes, (p, tmpRes\<lparr>state_NewState := OOB\<rparr>), (Hdd, bd))
           | Inr (energyLeft, Hdd, bd) \<Rightarrow>
               (if energyTH p * outlierTHSlack < energyLeft
                then (energyTH p * outlierTHSlack,
                      (p, tmpRes\<lparr>state_NewState := OUTLIER,
                                  state_NewEnergy := energyTH p * outlierTHSlack\<rparr>),
                      (Hdd, bd))
                else (energyLeft,
                      (p, tmpRes\<lparr>state_NewState := IN, state_NewEnergy := energyLeft\<rparr>),
                      (Hdd, bd)))))"

text \<open>
  An offset of the pattern at which the loop of \<^verbatim>\<open>linearizeResidual\<close> returns: the
  projection fails (line 541), or the intensity sampled there is not finite (line 552).
\<close>

fun offsetFails ::
  "ResidualProjections \<Rightarrow> CalibHessian \<Rightarrow> ImmaturePoint \<Rightarrow> ImmaturePointTemporaryResidual
     \<Rightarrow> float \<Rightarrow> int \<times> int \<Rightarrow> bool" where
  "offsetFails rp HCalib p tmpRes idepth (dx, dy) =
     (case projectPoint rp (u p) (v p) idepth dx dy HCalib
             (PRE_RTll (precalcOf p tmpRes)) (PRE_tTll (precalcOf p tmpRes)) of
        (ok, pp) \<Rightarrow>
          if ok
          then \<not> isfinite (vec3_x (getInterpolatedElement33 (target tmpRes) (pp_Ku pp) (pp_Kv pp)))
          else True)"

section \<open>Example data\<close>

text \<open>
  Concrete data on which the theorems below are run. The settings are those the
  comments of the file name (a pattern of eight offsets, a step of one pixel, three
  Gauss-Newton iterations), on an image of 640 by 480 pixels.
\<close>

definition exampleGlobals :: Globals where
  "exampleGlobals =
     \<lparr>wG0 = 640, hG0 = 480,
      patternP = [(0, - 2), (- 1, - 1), (1, - 1), (- 2, 0), (0, 0), (2, 0), (- 1, 1), (0, 2)],
      setting_maxPixSearch = Fin 0.027,
      setting_trace_stepsize = Fin 1,
      setting_trace_GNIterations = 3,
      setting_trace_GNThreshold = Fin 0.1,
      setting_trace_extraSlackOnTH = Fin 1.2,
      setting_trace_slackInterval = Fin 0.8,
      setting_trace_minImprovementFactor = Fin 2,
      setting_minTraceTestRadius = 2,
      setting_huberTH = Fin 9,
      setting_outlierTH = Fin 144,
      setting_outlierTHSumComponent = Fin 2500,
      setting_overallEnergyTHWeight = Fin 1\<rparr>"

definition identity33 :: Mat33f where
  "identity33 = ((Fin 1, Fin 0, Fin 0), (Fin 0, Fin 1, Fin 0), (Fin 0, Fin 0, Fin 1))"

text \<open>A target frame one unit to the side of the host, with a brightness offset.\<close>

definition exampleKt :: Vec3f where
  "exampleKt = (Fin 1, Fin 0, Fin 0)"

definition exampleAffine :: Vec2f where
  "exampleAffine = (Fin 1, Fin 0.5)"

definition examplePrecalc :: FrameFramePrecalc where
  "examplePrecalc =
     \<lparr>PRE_RTll = identity33, PRE_tTll = exampleKt,
      PRE_KRKiTll = identity33, PRE_KtTll = exampleKt,
      PRE_aff_mode = exampleAffine\<rparr>"

text \<open>An image whose intensity is the column, and an image of one intensity.\<close>

definition rampFrame :: FrameHessian where
  "rampFrame =
     \<lparr>frame_idx = 0,
      getInterpolatedElement31 = (\<lambda>x y. x),
      getInterpolatedElement33 = (\<lambda>x y. (x, Fin 1, Fin 0)),
      getInterpolatedElement33BiLin = (\<lambda>x y. (x, Fin 1, Fin 0)),
      targetPrecalc = (\<lambda>i. examplePrecalc)\<rparr>"

definition flatFrame :: FrameHessian where
  "flatFrame =
     \<lparr>frame_idx = 0,
      getInterpolatedElement31 = (\<lambda>x y. Fin 100),
      getInterpolatedElement33 = (\<lambda>x y. (Fin 100, Fin 0, Fin 0)),
      getInterpolatedElement33BiLin = (\<lambda>x y. (Fin 100, Fin 0, Fin 0)),
      targetPrecalc = (\<lambda>i. examplePrecalc)\<rparr>"

text \<open>
  A point at pixel (100, 100) of the ramp image, with the inverse depth known to
  lie between 0 and 4.
\<close>

definition examplePoint :: ImmaturePoint where
  "examplePoint =
     \<lparr>color = (\<lambda>idx. Fin 100 + float_of_int (fst (patternP exampleGlobals ! idx))),
      weights = (\<lambda>idx. Fin 1),
      gradH = ((Fin 8, Fin 0), (Fin 0, Fin 0)),
      u = Fin 100, v = Fin 100, host = rampFrame,
      idepth_min = Fin 0, idepth_max = Fin 4,
      energyTH = Fin 1152, quality = Fin 10000, my_type = Fin 1, idepth_GT = Fin 0,
      lastTraceStatus = IPS_UNINITIALIZED, lastTraceUV = (Fin 0, Fin 0),
      lastTracePixelInterval = Fin 0\<rparr>"

text \<open>The point after \<^verbatim>\<open>traceOn\<close> on the ramp image.\<close>

definition examplePoint_traced :: ImmaturePoint where
  "examplePoint_traced =
     examplePoint\<lparr>idepth_min := Fin (38 / 405), idepth_max := Fin (362 / 405),
       quality := Fin 25, lastTraceStatus := IPS_GOOD,
       lastTraceUV := (Fin (8140 / 81), Fin 100), lastTracePixelInterval := Fin (4 / 5)\<rparr>"

text \<open>A call of \<^verbatim>\<open>traceOn\<close> against the ramp image.\<close>

definition exampleCall :: "FrameHessian \<times> Mat33f \<times> Vec3f \<times> Vec2f" where
  "exampleCall = (rampFrame, identity33, exampleKt, exampleAffine)"

text \<open>
  The same point with the quality 3 and no upper bound on the inverse depth: the
  search runs over 32 steps.
\<close>

definition retracedPoint :: ImmaturePoint where
  "retracedPoint = examplePoint\<lparr>idepth_max := NaN, quality := Fin 3\<rparr>"

text \<open>A target frame with the brightness offset 0.25 instead of 0.5.\<close>

definition dimAffine :: Vec2f where
  "dimAffine = (Fin 1, Fin 0.25)"

text \<open>What the first part of \<^verbatim>\<open>traceOn\<close> hands to the search for this point.\<close>

definition exampleSetup :: TraceSetup where
  "exampleSetup =
     \<lparr>ts_pr = (Fin 100, Fin 100, Fin 1), ts_dx = Fin 1, ts_dy = Fin 0,
      ts_errorInPixel = Fin (2 / 5), ts_numSteps = 5, ts_ptx = Fin 100, ts_pty = Fin 100,
      ts_rotatetPattern =
        [(Fin 0, Fin (- 2)), (Fin (- 1), Fin (- 1)), (Fin 1, Fin (- 1)), (Fin (- 2), Fin 0),
         (Fin 0, Fin 0), (Fin 2, Fin 0), (Fin (- 1), Fin 1), (Fin 0, Fin 2)]\<rparr>"

text \<open>
  The same point with a fingerprint of intensity 0, which no pixel of the image of
  intensity 100 matches.
\<close>

definition darkPoint :: ImmaturePoint where
  "darkPoint = examplePoint\<lparr>color := (\<lambda>idx. Fin 0)\<rparr>"

text \<open>The dark point after \<^verbatim>\<open>traceOn\<close> on the image of intensity 100.\<close>

definition darkPoint_traced :: ImmaturePoint where
  "darkPoint_traced =
     darkPoint\<lparr>quality := Fin 1, lastTraceStatus := IPS_OUTLIER,
       lastTraceUV := (Fin (- 1), Fin (- 1)), lastTracePixelInterval := Fin 0\<rparr>"

text \<open>
  A point of a region without texture: the fingerprint has one intensity and the
  gradient matrix is zero.
\<close>

definition flatPoint :: ImmaturePoint where
  "flatPoint =
     examplePoint\<lparr>color := (\<lambda>idx. Fin 100), gradH := ((Fin 0, Fin 0), (Fin 0, Fin 0))\<rparr>"

text \<open>
  A target frame one unit behind the host along the optical axis (the principal
  point is at (320, 240)), and a point at depth 1 exactly: in the target frame
  its depth is 2.
\<close>

definition forwardKt :: Vec3f where
  "forwardKt = (Fin 320, Fin 240, Fin 1)"

definition forwardPoint :: ImmaturePoint where
  "forwardPoint = examplePoint\<lparr>idepth_min := Fin 1, idepth_max := Fin 1\<rparr>"

text \<open>
  Projection functions for the examples: the perspective projection of the pixel
  moved by the relative pose, which succeeds when the point is in front of the
  camera and its pixel is inside the image by a margin, and the derivative of the
  residual by the inverse depth. For a point that is not in front of the camera
  the projection fails before it writes the pixel, which keeps the zeros that
  \<^verbatim>\<open>getdPixdd\<close> puts there (line 454). The calibration has unit focal lengths and
  its principal point at the origin.
\<close>

definition exampleCalib :: CalibHessian where
  "exampleCalib = \<lparr>fxl = Fin 1, fyl = Fin 1\<rparr>"

definition exampleProjections :: ResidualProjections where
  "exampleProjections =
     \<lparr>projectPoint_KRKi = (\<lambda>u_pt v_pt idepth KRKi Kt.
        (let ptp = trace_ptp (mat33_vec KRKi (u_pt, v_pt, Fin 1)) Kt idepth;
             Ku = vec3_x ptp / vec3_z ptp;
             Kv = vec3_y ptp / vec3_z ptp
         in (Fin 1.1 < Ku \<and> Fin 1.1 < Kv \<and> Ku < Fin 637 \<and> Kv < Fin 477, Ku, Kv))),
      projectPoint = (\<lambda>u_pt v_pt idepth dx dy HCalib R t.
        (let KliP = ((u_pt + float_of_int dx) / fxl HCalib,
                     (v_pt + float_of_int dy) / fyl HCalib, Fin 1);
             ptp = trace_ptp (mat33_vec R KliP) t idepth;
             drescale = Fin 1 / vec3_z ptp;
             new_idepth = idepth * drescale;
             pu = vec3_x ptp * drescale;
             pv = vec3_y ptp * drescale;
             Ku = pu * fxl HCalib;
             Kv = pv * fyl HCalib
         in if \<not> Fin 0 < drescale
            then (False,
                  \<lparr>pp_drescale = drescale, pp_u = Fin 0, pp_v = Fin 0, pp_Ku = Fin 0,
                   pp_Kv = Fin 0, pp_KliP = KliP, pp_new_idepth = new_idepth\<rparr>)
            else (Fin 1.1 < Ku \<and> Fin 1.1 < Kv \<and> Ku < Fin 637 \<and> Kv < Fin 477,
                  \<lparr>pp_drescale = drescale, pp_u = pu, pp_v = pv, pp_Ku = Ku, pp_Kv = Kv,
                   pp_KliP = KliP, pp_new_idepth = new_idepth\<rparr>))),
      derive_idepth = (\<lambda>t pu pv dx dy dxInterp dyInterp drescale.
        dxInterp * drescale * (vec3_x t - vec3_z t * pu)
          + dyInterp * drescale * (vec3_y t - vec3_z t * pv))\<rparr>"

text \<open>A candidate residual of the example point against the ramp image.\<close>

definition exampleResidual :: ImmaturePointTemporaryResidual where
  "exampleResidual =
     \<lparr>state_state = IN, state_energy = Fin 7, state_NewState = IN, state_NewEnergy = Fin 7,
      target = rampFrame\<rparr>"

text \<open>
  The example point with a target frame 97 units to the side: at inverse depth 1
  it projects to column 3, and the offsets of the pattern to the columns 1 to 5.
\<close>

definition borderPrecalc :: FrameFramePrecalc where
  "borderPrecalc =
     examplePrecalc\<lparr>PRE_tTll := (Fin (- 97), Fin 0, Fin 0),
       PRE_KtTll := (Fin (- 97), Fin 0, Fin 0)\<rparr>"

definition borderPoint :: ImmaturePoint where
  "borderPoint = examplePoint\<lparr>host := rampFrame\<lparr>targetPrecalc := (\<lambda>i. borderPrecalc)\<rparr>\<rparr>"

text \<open>The example point with a target frame at the place of the host.\<close>

definition stillPrecalc :: FrameFramePrecalc where
  "stillPrecalc =
     examplePrecalc\<lparr>PRE_tTll := (Fin 0, Fin 0, Fin 0), PRE_KtTll := (Fin 0, Fin 0, Fin 0)\<rparr>"

definition stillPoint :: ImmaturePoint where
  "stillPoint = examplePoint\<lparr>host := rampFrame\<lparr>targetPrecalc := (\<lambda>i. stillPrecalc)\<rparr>\<rparr>"

text \<open>
  The example point with a target frame two units ahead of the host, and moved to
  the side: at inverse depth 1 the point is behind the target camera.
\<close>

definition passedPrecalc :: FrameFramePrecalc where
  "passedPrecalc =
     examplePrecalc\<lparr>PRE_tTll := (Fin 3, Fin 4, Fin (- 2)),
       PRE_KtTll := (Fin 3, Fin 4, Fin (- 2))\<rparr>"

definition passedPoint :: ImmaturePoint where
  "passedPoint = examplePoint\<lparr>host := rampFrame\<lparr>targetPrecalc := (\<lambda>i. passedPrecalc)\<rparr>\<rparr>"

section \<open>Properties\<close>

subsection \<open>Evaluation of the examples\<close>

lemmas trace_defs =
  traceOn_def trace_setup_def trace_pr_def trace_ptp_def trace_pixel_def trace_dist_def
  trace_endpoints_def trace_prepare_def trace_return_def inImage_def float_of_int_def
  minus_float_def trace_search_def trace_numSteps_def huberWeight_def trace_newQuality_def
  trace_updateQuality_def trace_gn_def trace_gnIteration_def trace_finish_def
  trace_newInterval_def Let_def eval_nat_numeral

lemmas example_defs =
  exampleGlobals_def identity33_def exampleKt_def exampleAffine_def examplePrecalc_def
  rampFrame_def flatFrame_def examplePoint_def

lemma traceOn_examplePoint:
  "traceOn exampleGlobals rampFrame identity33 exampleKt exampleAffine examplePoint
     = (IPS_GOOD, examplePoint_traced)"
  by (simp add: trace_defs example_defs examplePoint_traced_def cong: let_weak_cong)

lemma sqrt_small: "sqrt (1 / 10000) = 1 / 100"
  by (rule real_sqrt_unique) (simp_all add: power2_eq_square)

lemma sqrt_16_25: "sqrt (16 / 25) = 4 / 5"
  by (rule real_sqrt_unique) (simp_all add: power2_eq_square)

lemma traceOn_calls_examplePoint:
  "quality (traceOn_calls exampleGlobals [exampleCall, exampleCall] examplePoint) = Fin 25"
  by (simp add: exampleCall_def trace_defs example_defs sqrt_16_25 cong: let_weak_cong)

lemma trace_setup_retracedPoint:
  "trace_setup exampleGlobals identity33 exampleKt retracedPoint
     = Inr (exampleSetup\<lparr>ts_numSteps := 32\<rparr>)"
  by (simp add: trace_defs example_defs retracedPoint_def exampleSetup_def sqrt_small
      cong: let_weak_cong)

lemma trace_newQuality_retracedPoint:
  "trace_newQuality exampleGlobals
     (trace_search exampleGlobals rampFrame dimAffine retracedPoint
        (exampleSetup\<lparr>ts_numSteps := 32\<rparr>)) = Fin 121"
  by (simp add: trace_defs example_defs retracedPoint_def dimAffine_def exampleSetup_def
      cong: let_weak_cong)

lemma trace_setup_examplePoint:
  "trace_setup exampleGlobals identity33 exampleKt examplePoint = Inr exampleSetup"
  by (simp add: trace_defs example_defs exampleSetup_def cong: let_weak_cong)

lemma trace_newQuality_examplePoint:
  "trace_newQuality exampleGlobals
     (trace_search exampleGlobals rampFrame exampleAffine examplePoint exampleSetup) = Fin 25"
  by (simp add: trace_defs example_defs exampleSetup_def cong: let_weak_cong)

lemma trace_setup_examplePoint_traced:
  "trace_setup exampleGlobals identity33 exampleKt examplePoint_traced
     = Inr (exampleSetup\<lparr>ts_numSteps := 2, ts_ptx := Fin (1489 / 15)\<rparr>)"
  by (simp add: trace_defs example_defs examplePoint_traced_def exampleSetup_def sqrt_16_25
      cong: let_weak_cong)

lemma trace_newQuality_examplePoint_traced:
  "trace_newQuality exampleGlobals
     (trace_search exampleGlobals rampFrame exampleAffine examplePoint_traced
        (exampleSetup\<lparr>ts_numSteps := 2, ts_ptx := Fin (1489 / 15)\<rparr>))
   = Fin (1125000000000 / 49)"
  by (simp add: trace_defs example_defs examplePoint_traced_def exampleSetup_def
      cong: let_weak_cong)

lemma trace_setup_darkPoint:
  "trace_setup exampleGlobals identity33 exampleKt darkPoint = Inr exampleSetup"
  by (simp add: trace_defs example_defs darkPoint_def exampleSetup_def cong: let_weak_cong)

lemma trace_gn_darkPoint:
  "gn_bestEnergy (trace_gn exampleGlobals flatFrame exampleAffine darkPoint exampleSetup
     (trace_search exampleGlobals flatFrame exampleAffine darkPoint exampleSetup))
   = Fin 13680"
  by (simp add: trace_defs example_defs darkPoint_def exampleSetup_def cong: let_weak_cong)

lemma traceOn_darkPoint:
  "traceOn exampleGlobals flatFrame identity33 exampleKt exampleAffine darkPoint
     = (IPS_OUTLIER, darkPoint_traced)"
  by (simp add: trace_defs example_defs darkPoint_def darkPoint_traced_def cong: let_weak_cong)

lemma trace_setup_darkPoint_traced:
  "trace_setup exampleGlobals identity33 exampleKt darkPoint_traced = Inr exampleSetup"
  by (simp add: trace_defs example_defs darkPoint_def darkPoint_traced_def exampleSetup_def
      cong: let_weak_cong)

lemma trace_gn_darkPoint_traced:
  "gn_bestEnergy (trace_gn exampleGlobals flatFrame exampleAffine darkPoint_traced exampleSetup
     (trace_search exampleGlobals flatFrame exampleAffine darkPoint_traced exampleSetup))
   = Fin 13680"
  by (simp add: trace_defs example_defs darkPoint_def darkPoint_traced_def exampleSetup_def
      cong: let_weak_cong)

lemma trace_setup_flatPoint:
  "trace_setup exampleGlobals identity33 exampleKt flatPoint
     = Inr (exampleSetup\<lparr>ts_errorInPixel := NaN\<rparr>)"
  by (simp add: trace_defs example_defs flatPoint_def exampleSetup_def cong: let_weak_cong)

lemma trace_gn_flatPoint:
  "trace_gn exampleGlobals flatFrame exampleAffine flatPoint
     (exampleSetup\<lparr>ts_errorInPixel := NaN\<rparr>)
     (trace_search exampleGlobals flatFrame exampleAffine flatPoint
        (exampleSetup\<lparr>ts_errorInPixel := NaN\<rparr>))
   = \<lparr>gn_bestU = Fin 100, gn_bestV = Fin 100, gn_bestEnergy = Fin 2,
      gn_uBak = Fin 100, gn_vBak = Fin 100, gn_stepBack = Fin 0\<rparr>"
  by (simp add: trace_defs example_defs flatPoint_def exampleSetup_def cong: let_weak_cong)

lemma traceOn_forwardPoint:
  "fst (traceOn exampleGlobals rampFrame identity33 forwardKt exampleAffine forwardPoint)
     = IPS_SKIPPED"
  by (simp add: trace_defs example_defs forwardPoint_def forwardKt_def cong: let_weak_cong)

lemmas residual_defs =
  calcResidual_def linearizeResidual_def getdPixdd_def precalcOf_def huberWeight_def
  trace_ptp_def float_of_int_def minus_float_def Let_def

lemmas residual_example_defs =
  exampleCalib_def exampleProjections_def exampleResidual_def borderPrecalc_def borderPoint_def
  stillPrecalc_def stillPoint_def passedPrecalc_def passedPoint_def

lemma calcResidual_examplePoint:
  "calcResidual exampleGlobals exampleProjections (Fin 1.2) (Fin 0) (examplePoint, exampleResidual)
     = (Fin 2, examplePoint, exampleResidual)"
  by (simp add: residual_defs example_defs residual_example_defs)

lemma projectPoint_KRKi_borderPoint:
  "\<not> fst (projectPoint_KRKi exampleProjections (u borderPoint + float_of_int (- 2))
       (v borderPoint + float_of_int 0) (Fin 1)
       (PRE_KRKiTll (precalcOf borderPoint exampleResidual))
       (PRE_KtTll (precalcOf borderPoint exampleResidual)))"
  "fst (projectPoint_KRKi exampleProjections (u borderPoint + float_of_int 0)
       (v borderPoint + float_of_int (- 2)) (Fin 1)
       (PRE_KRKiTll (precalcOf borderPoint exampleResidual))
       (PRE_KtTll (precalcOf borderPoint exampleResidual)))"
  by (simp_all add: residual_defs example_defs residual_example_defs)

lemma offsetFails_borderPoint:
  "offsetFails exampleProjections exampleCalib borderPoint exampleResidual (Fin 1) (- 2, 0)"
  "\<forall>q \<in> set [(0, - 2), (- 1, - 1), (1, - 1)].
     \<not> offsetFails exampleProjections exampleCalib borderPoint exampleResidual (Fin 1) q"
  by (simp_all add: residual_defs example_defs residual_example_defs)

lemma linearizeResidual_loop_borderPoint:
  "linearizeResidual_loop exampleGlobals exampleProjections exampleCalib borderPoint
     exampleResidual (Fin 1) [(0, - 2), (- 1, - 1), (1, - 1)] 0 (Fin 0, Fin 10, Fin 20)
   = Inr (Fin 5022, Fin (170012 / 65), Fin 2639)"
  by (simp add: residual_defs example_defs residual_example_defs)

lemma linearizeResidual_borderPoint:
  "snd (snd (linearizeResidual exampleGlobals exampleProjections exampleCalib (Fin 1.2) (Fin 1)
     (borderPoint, exampleResidual) (Fin 0, Fin 0))) = (Fin (169362 / 65), Fin 2619)"
  by (simp add: residual_defs example_defs residual_example_defs)




subsection \<open>Values\<close>

lemma float_not_less_finite:
  "isfinite a \<Longrightarrow> isfinite b \<Longrightarrow> \<not> b < a \<Longrightarrow> a \<le> b"
  by (cases a; cases b) simp_all

lemma float_less_imp_le: "(a::float) < b \<Longrightarrow> a \<le> b"
  by (cases a; cases b) simp_all

subsection \<open>The assertions\<close>

text \<open>
  With a positive slack interval and a positive search length the two
  \<^verbatim>\<open>assert(dist > 0)\<close> of \<^verbatim>\<open>traceOn\<close> hold whenever they are reached, so that leaving
  them out of the model loses no behaviour.
\<close>

lemma inImage_finite: "inImage g x y \<Longrightarrow> isfinite x \<and> isfinite y"
  by (cases x; cases y) (simp_all add: inImage_def float_of_int_def)

lemma trace_dist_finite:
  "isfinite a \<Longrightarrow> isfinite b \<Longrightarrow> isfinite c \<Longrightarrow> isfinite d
     \<Longrightarrow> fin_nonneg (trace_dist (a, b) (c, d))"
  by (cases a; cases b; cases c; cases d) (simp_all add: trace_dist_def minus_float_def not_less)

lemma fin_nonneg_not_less: "fin_nonneg d \<Longrightarrow> \<not> d < s \<Longrightarrow> Fin 0 < s \<Longrightarrow> Fin 0 < d"
  by (cases d; cases s) simp_all

lemma trace_endpoints_assert:
  assumes "trace_endpoints g Kt pr uMin vMin p = Inr (d, uMax, vMax)"
    and "inImage g uMin vMin"
    and "Fin 0 < setting_trace_slackInterval g"
    and "Fin 0 < float_of_int (wG0 g + hG0 g) * setting_maxPixSearch g"
  shows "Fin 0 < d"
proof (cases "isfinite (idepth_max p)")
  case True
  let ?uv = "trace_pixel (trace_ptp pr Kt (idepth_max p))"
  from assms(1) True have im: "inImage g (fst ?uv) (snd ?uv)"
    and d: "d = trace_dist (uMin, vMin) (fst ?uv, snd ?uv)"
    and ns: "\<not> d < setting_trace_slackInterval g"
    by (auto simp: trace_endpoints_def Let_def split: if_splits)
  from inImage_finite[OF assms(2)] inImage_finite[OF im] have "fin_nonneg d"
    unfolding d by (intro trace_dist_finite) simp_all
  from this ns assms(3) show ?thesis by (rule fin_nonneg_not_less)
next
  case False
  with assms(1,4) show ?thesis
    by (auto simp: trace_endpoints_def Let_def split: if_splits)
qed

subsection \<open>The statuses of the early returns\<close>

lemma trace_endpoints_Inl:
  "trace_endpoints g Kt pr uMin vMin p = Inl r \<Longrightarrow> fst r = IPS_OOB \<or> fst r = IPS_SKIPPED"
  by (auto simp: trace_endpoints_def Let_def trace_return_def split: if_splits)

lemma trace_prepare_Inl:
  "trace_prepare g KRKi pr uMin vMin d uMax vMax p = Inl r
     \<Longrightarrow> fst r = IPS_OOB \<or> fst r = IPS_BADCONDITION"
  by (auto simp: trace_prepare_def Let_def trace_return_def split: if_splits)

lemma trace_setup_Inl:
  "trace_setup g KRKi Kt p = Inl r
     \<Longrightarrow> fst r = IPS_OOB \<or> fst r = IPS_SKIPPED \<or> fst r = IPS_BADCONDITION"
  by (auto simp: trace_setup_def Let_def trace_return_def split: if_splits sum.splits prod.splits
      dest: trace_endpoints_Inl trace_prepare_Inl)

subsection \<open>The interval of a good search\<close>

lemma trace_newInterval_ordered:
  "trace_newInterval Kt ts bU bV = (imin, imax) \<Longrightarrow> isfinite imin \<Longrightarrow> isfinite imax
     \<Longrightarrow> imin \<le> imax"
  by (auto simp: trace_newInterval_def Let_def split: if_splits prod.splits
      intro: float_not_less_finite float_less_imp_le)

lemma trace_finish_good:
  assumes "trace_finish g Kt p ts s = (IPS_GOOD, p')"
  shows "isfinite (idepth_min p') \<and> isfinite (idepth_max p')
           \<and> idepth_min p' \<le> idepth_max p' \<and> Fin 0 \<le> idepth_max p'"
proof -
  obtain imin imax where ni: "trace_newInterval Kt ts (gn_bestU s) (gn_bestV s) = (imin, imax)"
    by (cases "trace_newInterval Kt ts (gn_bestU s) (gn_bestV s)")
  from assms ni have fin: "isfinite imin" "isfinite imax" and nn: "\<not> imax < Fin 0"
    and p': "idepth_min p' = imin" "idepth_max p' = imax"
    by (auto simp: trace_finish_def Let_def trace_return_def split: if_splits)
  from ni fin have "imin \<le> imax" by (rule trace_newInterval_ordered)
  moreover from fin(2) nn have "Fin 0 \<le> imax" by (cases imax) simp_all
  ultimately show ?thesis using fin p' by simp
qed

text \<open>
  C1. Whenever \<^verbatim>\<open>traceOn\<close> returns the good status, the inverse-depth interval of
  the point after the call has two finite bounds, the lower one at most the upper
  one, and the upper one is not negative.
\<close>

theorem traceOn_good_interval:
  assumes "traceOn g frame KRKi Kt aff p = (IPS_GOOD, p')"
  shows "isfinite (idepth_min p') \<and> isfinite (idepth_max p')
           \<and> idepth_min p' \<le> idepth_max p' \<and> Fin 0 \<le> idepth_max p'"
proof (cases "trace_setup g KRKi Kt p")
  case (Inl r)
  with assms have "fst r = IPS_GOOD \<or> lastTraceStatus p = IPS_OOB"
    by (auto simp: traceOn_def split: if_splits)
  with assms trace_setup_Inl[OF Inl] show ?thesis
    by (auto simp: traceOn_def split: if_splits)
next
  case (Inr ts)
  with assms show ?thesis
    by (auto simp: traceOn_def Let_def split: if_splits dest!: trace_finish_good)
qed

theorem traceOn_good_interval_witness:
  "traceOn exampleGlobals rampFrame identity33 exampleKt exampleAffine examplePoint
     = (IPS_GOOD, examplePoint_traced)
   \<and> isfinite (idepth_min examplePoint_traced) \<and> isfinite (idepth_max examplePoint_traced)
   \<and> idepth_min examplePoint_traced \<le> idepth_max examplePoint_traced
   \<and> Fin 0 \<le> idepth_max examplePoint_traced"
  using traceOn_good_interval [OF traceOn_examplePoint] traceOn_examplePoint by simp

subsection \<open>A point that is out of bounds\<close>

text \<open>
  C4. On a point whose status is out of bounds already, \<^verbatim>\<open>traceOn\<close> returns out
  of bounds and the point after the call is the point before it: no field changes,
  the inverse-depth interval included.
\<close>

theorem traceOn_oob_unchanged:
  assumes "lastTraceStatus p = IPS_OOB"
  shows "traceOn g frame KRKi Kt aff p = (IPS_OOB, p)"
  using assms by (simp add: traceOn_def)

theorem traceOn_oob_unchanged_witness:
  "lastTraceStatus (examplePoint\<lparr>lastTraceStatus := IPS_OOB\<rparr>) = IPS_OOB
   \<and> traceOn exampleGlobals rampFrame identity33 exampleKt exampleAffine
        (examplePoint\<lparr>lastTraceStatus := IPS_OOB\<rparr>)
       = (IPS_OOB, examplePoint\<lparr>lastTraceStatus := IPS_OOB\<rparr>)"
  using traceOn_oob_unchanged [of "examplePoint\<lparr>lastTraceStatus := IPS_OOB\<rparr>"
      exampleGlobals rampFrame identity33 exampleKt exampleAffine]
  by simp

subsection \<open>The search does not depend on the quality\<close>

lemma trace_gnSums_point:
  "color q = color p \<Longrightarrow> weights q = weights p \<Longrightarrow>
   trace_gnSums g frame aff q dx dy bU bV rps idx acc
     = trace_gnSums g frame aff p dx dy bU bV rps idx acc"
proof (induction rps arbitrary: idx acc)
  case Nil
  then show ?case by simp
next
  case (Cons rp rps)
  obtain H b e where acc: "acc = (H, b, e)" by (cases acc)
  show ?case unfolding acc
    by (simp add: Let_def Cons.IH[OF Cons.prems] Cons.prems)
qed

lemma trace_gnIteration_point:
  assumes "color q = color p" and "weights q = weights p"
  shows "trace_gnIteration g frame aff q ts s = trace_gnIteration g frame aff p ts s"
  by (simp add: trace_gnIteration_def trace_gnSums_point[OF assms])

lemma trace_gnLoop_point:
  assumes "color q = color p" and "weights q = weights p"
  shows "trace_gnLoop g frame aff q ts n s = trace_gnLoop g frame aff p ts n s"
  by (induction n arbitrary: s) (simp_all add: trace_gnIteration_point[OF assms] Let_def)

lemma trace_gn_updateQuality:
  "trace_gn g frame aff (trace_updateQuality nq n p) ts ds = trace_gn g frame aff p ts ds"
proof -
  have c: "color (trace_updateQuality nq n p) = color p"
    and w: "weights (trace_updateQuality nq n p) = weights p"
    by (simp_all add: trace_updateQuality_def)
  show ?thesis
    by (simp add: trace_gn_def trace_gnLoop_point[OF c w])
qed

lemma trace_updateQuality_fields:
  "energyTH (trace_updateQuality nq n p) = energyTH p"
  "lastTraceStatus (trace_updateQuality nq n p) = lastTraceStatus p"
  by (simp_all add: trace_updateQuality_def)

text \<open>A call that gets past the early returns.\<close>

lemma traceOn_searched:
  assumes "lastTraceStatus p \<noteq> IPS_OOB" and "trace_setup g KRKi Kt p = Inr ts"
  shows "traceOn g frame KRKi Kt aff p =
     trace_finish g Kt
       (trace_updateQuality (trace_newQuality g (trace_search g frame aff p ts))
          (trace_numSteps ts) p)
       ts (trace_gn g frame aff p ts (trace_search g frame aff p ts))"
  using assms by (simp add: traceOn_def Let_def trace_gn_updateQuality)

subsection \<open>The outlier test on the energy\<close>

text \<open>Every return of \<^verbatim>\<open>traceOn\<close> stores the status that it returns.\<close>

lemma trace_endpoints_status:
  "trace_endpoints g Kt pr uMin vMin p = Inl r \<Longrightarrow> lastTraceStatus (snd r) = fst r"
  by (auto simp: trace_endpoints_def Let_def trace_return_def split: if_splits)

lemma trace_prepare_status:
  "trace_prepare g KRKi pr uMin vMin d uMax vMax p = Inl r \<Longrightarrow> lastTraceStatus (snd r) = fst r"
  by (auto simp: trace_prepare_def Let_def trace_return_def split: if_splits)

lemma trace_setup_status:
  "trace_setup g KRKi Kt p = Inl r \<Longrightarrow> lastTraceStatus (snd r) = fst r"
  by (auto simp: trace_setup_def Let_def trace_return_def split: if_splits sum.splits prod.splits
      dest: trace_endpoints_status trace_prepare_status)

lemma trace_finish_status:
  "lastTraceStatus (snd (trace_finish g Kt p ts s)) = fst (trace_finish g Kt p ts s)"
  by (simp add: trace_finish_def trace_return_def Let_def split: prod.splits)

lemma traceOn_status_recorded:
  "lastTraceStatus (snd (traceOn g frame KRKi Kt aff p)) = fst (traceOn g frame KRKi Kt aff p)"
proof (cases "lastTraceStatus p = IPS_OOB")
  case True
  then show ?thesis by (simp add: traceOn_def)
next
  case False
  show ?thesis
  proof (cases "trace_setup g KRKi Kt p")
    case (Inl r)
    with False trace_setup_status[OF Inl] show ?thesis by (simp add: traceOn_def)
  next
    case (Inr ts)
    with False show ?thesis by (simp add: traceOn_def Let_def trace_finish_status)
  qed
qed

text \<open>One call that gets to the outlier test with an energy above the threshold.\<close>

lemma traceOn_outlier_step:
  assumes "lastTraceStatus p \<noteq> IPS_OOB"
    and "trace_setup g KRKi Kt p = Inr ts"
    and "energyTH p * setting_trace_extraSlackOnTH g
           < gn_bestEnergy (trace_gn g frame aff p ts (trace_search g frame aff p ts))"
  shows "fst (traceOn g frame KRKi Kt aff p)
           = (if lastTraceStatus p = IPS_OUTLIER then IPS_OOB else IPS_OUTLIER)"
    and "lastTraceUV (snd (traceOn g frame KRKi Kt aff p)) = (Fin (- 1), Fin (- 1))"
proof -
  let ?e = "gn_bestEnergy (trace_gn g frame aff p ts (trace_search g frame aff p ts))"
  let ?th = "energyTH p * setting_trace_extraSlackOnTH g"
  from assms(3) have "\<not> ?e < ?th"
    by (cases ?e; cases ?th) simp_all
  then show "fst (traceOn g frame KRKi Kt aff p)
           = (if lastTraceStatus p = IPS_OUTLIER then IPS_OOB else IPS_OUTLIER)"
    and "lastTraceUV (snd (traceOn g frame KRKi Kt aff p)) = (Fin (- 1), Fin (- 1))"
    by (simp_all add: traceOn_searched[OF assms(1,2)] trace_finish_def trace_updateQuality_fields
        trace_return_def)
qed

text \<open>
  C3. A call of \<^verbatim>\<open>traceOn\<close> that gets to the outlier test with a final energy
  above \<^verbatim>\<open>energyTH * setting_trace_extraSlackOnTH\<close> returns out of bounds when the
  status left by the call before was outlier, and outlier otherwise; either way the
  call stores the status that it returns in the point, and the last traced position
  is (-1, -1) after it. So when the next call on the point, whatever its target
  frame, gets to the outlier test with an energy above the threshold again, that
  second call returns out of bounds and stores it.
\<close>

theorem traceOn_energy_outlier:
  assumes "lastTraceStatus p \<noteq> IPS_OOB"
    and "trace_setup g KRKi Kt p = Inr ts"
    and "energyTH p * setting_trace_extraSlackOnTH g
           < gn_bestEnergy (trace_gn g frame aff p ts (trace_search g frame aff p ts))"
  shows "fst (traceOn g frame KRKi Kt aff p)
           = (if lastTraceStatus p = IPS_OUTLIER then IPS_OOB else IPS_OUTLIER)
         \<and> lastTraceStatus (snd (traceOn g frame KRKi Kt aff p))
             = fst (traceOn g frame KRKi Kt aff p)
         \<and> lastTraceUV (snd (traceOn g frame KRKi Kt aff p)) = (Fin (- 1), Fin (- 1))
         \<and> (trace_setup g KRKi2 Kt2 (snd (traceOn g frame KRKi Kt aff p)) = Inr ts2
              \<and> energyTH (snd (traceOn g frame KRKi Kt aff p)) * setting_trace_extraSlackOnTH g
                  < gn_bestEnergy
                      (trace_gn g frame2 aff2 (snd (traceOn g frame KRKi Kt aff p)) ts2
                         (trace_search g frame2 aff2 (snd (traceOn g frame KRKi Kt aff p)) ts2))
            \<longrightarrow> fst (traceOn g frame2 KRKi2 Kt2 aff2 (snd (traceOn g frame KRKi Kt aff p)))
                  = IPS_OOB
                \<and> lastTraceStatus
                    (snd (traceOn g frame2 KRKi2 Kt2 aff2 (snd (traceOn g frame KRKi Kt aff p))))
                  = IPS_OOB)"
proof -
  define p1 where "p1 = snd (traceOn g frame KRKi Kt aff p)"
  have r: "fst (traceOn g frame KRKi Kt aff p)
           = (if lastTraceStatus p = IPS_OUTLIER then IPS_OOB else IPS_OUTLIER)"
    by (rule traceOn_outlier_step(1)[OF assms])
  have s: "lastTraceStatus p1 = fst (traceOn g frame KRKi Kt aff p)"
    unfolding p1_def by (rule traceOn_status_recorded)
  have uv: "lastTraceUV p1 = (Fin (- 1), Fin (- 1))"
    unfolding p1_def by (rule traceOn_outlier_step(2)[OF assms])
  have second: "fst (traceOn g frame2 KRKi2 Kt2 aff2 p1) = IPS_OOB
                \<and> lastTraceStatus (snd (traceOn g frame2 KRKi2 Kt2 aff2 p1)) = IPS_OOB"
    if su: "trace_setup g KRKi2 Kt2 p1 = Inr ts2"
      and en: "energyTH p1 * setting_trace_extraSlackOnTH g
                  < gn_bestEnergy (trace_gn g frame2 aff2 p1 ts2 (trace_search g frame2 aff2 p1 ts2))"
  proof -
    have f: "fst (traceOn g frame2 KRKi2 Kt2 aff2 p1) = IPS_OOB"
    proof (cases "lastTraceStatus p1 = IPS_OOB")
      case True
      then show ?thesis by (simp add: traceOn_def)
    next
      case False
      with r s have "lastTraceStatus p1 = IPS_OUTLIER" by (simp split: if_splits)
      with traceOn_outlier_step(1)[OF False su en] show ?thesis by simp
    qed
    then show ?thesis by (simp add: traceOn_status_recorded)
  qed
  from r s uv second show ?thesis unfolding p1_def by blast
qed

text \<open>
  Two calls in a row on the dark point against the image of intensity 100: the
  point is not yet traced before the first call, which returns outlier and leaves
  the point with the status outlier and the position (-1, -1); the second call,
  on the point that the first one left, returns out of bounds and stores it.
\<close>

theorem traceOn_energy_outlier_witness:
  "lastTraceStatus darkPoint = IPS_UNINITIALIZED
   \<and> traceOn exampleGlobals flatFrame identity33 exampleKt exampleAffine darkPoint
       = (IPS_OUTLIER, darkPoint_traced)
   \<and> lastTraceStatus darkPoint_traced = IPS_OUTLIER
   \<and> lastTraceUV darkPoint_traced = (Fin (- 1), Fin (- 1))
   \<and> fst (traceOn exampleGlobals flatFrame identity33 exampleKt exampleAffine
        (snd (traceOn exampleGlobals flatFrame identity33 exampleKt exampleAffine darkPoint)))
       = IPS_OOB
   \<and> lastTraceStatus (snd (traceOn exampleGlobals flatFrame identity33 exampleKt exampleAffine
        (snd (traceOn exampleGlobals flatFrame identity33 exampleKt exampleAffine darkPoint))))
       = IPS_OOB"
proof -
  have st: "lastTraceStatus darkPoint \<noteq> IPS_OOB"
    and un: "lastTraceStatus darkPoint = IPS_UNINITIALIZED"
    by (simp_all add: darkPoint_def examplePoint_def)
  have e: "energyTH darkPoint * setting_trace_extraSlackOnTH exampleGlobals
             < gn_bestEnergy (trace_gn exampleGlobals flatFrame exampleAffine darkPoint exampleSetup
                 (trace_search exampleGlobals flatFrame exampleAffine darkPoint exampleSetup))"
    unfolding trace_gn_darkPoint by (simp add: darkPoint_def example_defs)
  have p1: "snd (traceOn exampleGlobals flatFrame identity33 exampleKt exampleAffine darkPoint)
              = darkPoint_traced"
    by (simp add: traceOn_darkPoint)
  have e2: "energyTH darkPoint_traced * setting_trace_extraSlackOnTH exampleGlobals
             < gn_bestEnergy (trace_gn exampleGlobals flatFrame exampleAffine darkPoint_traced
                 exampleSetup
                 (trace_search exampleGlobals flatFrame exampleAffine darkPoint_traced exampleSetup))"
    unfolding trace_gn_darkPoint_traced
    by (simp add: darkPoint_traced_def darkPoint_def example_defs)
  from traceOn_energy_outlier [OF st trace_setup_darkPoint e, of identity33 exampleKt exampleSetup
      flatFrame exampleAffine]
    trace_setup_darkPoint_traced e2 traceOn_darkPoint un
  show ?thesis
    by (simp add: p1 darkPoint_traced_def)
qed

subsection \<open>The test of the new interval\<close>

text \<open>
  C10. A call of \<^verbatim>\<open>traceOn\<close> that gets to the new interval and finds a bound that
  is not finite, or a negative upper bound, returns outlier, and the point keeps
  the new bounds: the interval it had before the call is not restored.
\<close>

theorem traceOn_invalid_interval_kept:
  assumes "lastTraceStatus p \<noteq> IPS_OOB"
    and "trace_setup g KRKi Kt p = Inr ts"
    and "s = trace_gn g frame aff p ts (trace_search g frame aff p ts)"
    and "gn_bestEnergy s < energyTH p * setting_trace_extraSlackOnTH g"
    and "trace_newInterval Kt ts (gn_bestU s) (gn_bestV s) = (imin, imax)"
    and "\<not> isfinite imin \<or> \<not> isfinite imax \<or> imax < Fin 0"
  shows "fst (traceOn g frame KRKi Kt aff p) = IPS_OUTLIER
         \<and> idepth_min (snd (traceOn g frame KRKi Kt aff p)) = imin
         \<and> idepth_max (snd (traceOn g frame KRKi Kt aff p)) = imax"
  using assms(3-6)
  by (auto simp add: traceOn_searched[OF assms(1,2)] trace_finish_def trace_updateQuality_fields
        trace_return_def Let_def)

text \<open>
  The point without texture: the error bound is not a number, and so are the two
  bounds after the call, where they were 0 and 4 before it.
\<close>

theorem traceOn_invalid_interval_kept_witness:
  "idepth_min flatPoint = Fin 0 \<and> idepth_max flatPoint = Fin 4
   \<and> fst (traceOn exampleGlobals flatFrame identity33 exampleKt exampleAffine flatPoint)
       = IPS_OUTLIER
   \<and> idepth_min (snd (traceOn exampleGlobals flatFrame identity33 exampleKt exampleAffine
        flatPoint)) = NaN
   \<and> idepth_max (snd (traceOn exampleGlobals flatFrame identity33 exampleKt exampleAffine
        flatPoint)) = NaN"
proof -
  let ?s = "trace_gn exampleGlobals flatFrame exampleAffine flatPoint
     (exampleSetup\<lparr>ts_errorInPixel := NaN\<rparr>)
     (trace_search exampleGlobals flatFrame exampleAffine flatPoint
        (exampleSetup\<lparr>ts_errorInPixel := NaN\<rparr>))"
  have st: "lastTraceStatus flatPoint \<noteq> IPS_OOB"
    by (simp add: flatPoint_def examplePoint_def)
  have e: "gn_bestEnergy ?s < energyTH flatPoint * setting_trace_extraSlackOnTH exampleGlobals"
    unfolding trace_gn_flatPoint by (simp add: flatPoint_def example_defs)
  have i: "trace_newInterval exampleKt (exampleSetup\<lparr>ts_errorInPixel := NaN\<rparr>)
             (gn_bestU ?s) (gn_bestV ?s) = (NaN, NaN)"
    unfolding trace_gn_flatPoint
    by (simp add: trace_newInterval_def exampleSetup_def exampleKt_def minus_float_def)
  have n: "\<not> isfinite NaN \<or> \<not> isfinite NaN \<or> NaN < Fin 0"
    by simp
  from traceOn_invalid_interval_kept [OF st trace_setup_flatPoint refl e i n]
  show ?thesis by (simp add: flatPoint_def examplePoint_def)
qed

subsection \<open>The test of the scale change\<close>

lemma trace_endpoints_skips:
  "trace_endpoints g Kt (trace_pr KRKi p)
      (fst (trace_pixel (trace_ptp (trace_pr KRKi p) Kt (idepth_min p))))
      (snd (trace_pixel (trace_ptp (trace_pr KRKi p) Kt (idepth_min p)))) p = Inl r
   \<Longrightarrow> fst r = (if trace_skips g KRKi Kt p then IPS_SKIPPED else IPS_OOB)"
  by (auto simp: trace_endpoints_def trace_skips_def Let_def trace_return_def split: if_splits)

lemma trace_endpoints_not_skips:
  "trace_endpoints g Kt (trace_pr KRKi p)
      (fst (trace_pixel (trace_ptp (trace_pr KRKi p) Kt (idepth_min p))))
      (snd (trace_pixel (trace_ptp (trace_pr KRKi p) Kt (idepth_min p)))) p = Inr x
   \<Longrightarrow> \<not> trace_skips g KRKi Kt p"
  by (auto simp: trace_endpoints_def trace_skips_def Let_def trace_return_def split: if_splits)

text \<open>
  C2, as the program has it. Let the projection at \<^verbatim>\<open>idepth_min\<close> pass the border
  test, \<^verbatim>\<open>idepth_min\<close> be not negative and the third component of that projection
  be outside (0.75, 1.5). Then \<^verbatim>\<open>traceOn\<close> returns out of bounds, but for one case:
  when the point is not out of bounds already, \<^verbatim>\<open>idepth_max\<close> is finite, its
  projection passes the border test and the two projections are closer than the
  slack interval, the call returns skipped, since that test comes before the test
  of the scale.
\<close>

theorem traceOn_scale_change:
  fixes KRKi Kt p
  defines "ptpMin \<equiv> trace_ptp (trace_pr KRKi p) Kt (idepth_min p)"
  assumes "inImage g (fst (trace_pixel ptpMin)) (snd (trace_pixel ptpMin))"
    and "\<not> idepth_min p < Fin 0"
    and "\<not> (Fin 0.75 < vec3_z ptpMin \<and> vec3_z ptpMin < Fin 1.5)"
  shows "fst (traceOn g frame KRKi Kt aff p)
           = (if lastTraceStatus p \<noteq> IPS_OOB \<and> trace_skips g KRKi Kt p
              then IPS_SKIPPED else IPS_OOB)"
proof (cases "lastTraceStatus p = IPS_OOB")
  case True
  then show ?thesis by (simp add: traceOn_def)
next
  case False
  show ?thesis
  proof (cases "trace_endpoints g Kt (trace_pr KRKi p)
      (fst (trace_pixel (trace_ptp (trace_pr KRKi p) Kt (idepth_min p))))
      (snd (trace_pixel (trace_ptp (trace_pr KRKi p) Kt (idepth_min p)))) p")
    case (Inl r)
    from trace_endpoints_skips[OF Inl] Inl False assms show ?thesis
      by (simp add: traceOn_def trace_setup_def Let_def)
  next
    case (Inr x)
    from trace_endpoints_not_skips[OF Inr] Inr False assms show ?thesis
      by (simp add: traceOn_def trace_setup_def Let_def trace_return_def split: prod.splits)
  qed
qed

text \<open>
  The point at depth 1 seen from one unit behind, with no upper bound on the
  inverse depth: out of bounds.
\<close>

theorem traceOn_scale_change_witness:
  "inImage exampleGlobals
     (fst (trace_pixel (trace_ptp (trace_pr identity33 (forwardPoint\<lparr>idepth_max := NaN\<rparr>))
        forwardKt (idepth_min (forwardPoint\<lparr>idepth_max := NaN\<rparr>)))))
     (snd (trace_pixel (trace_ptp (trace_pr identity33 (forwardPoint\<lparr>idepth_max := NaN\<rparr>))
        forwardKt (idepth_min (forwardPoint\<lparr>idepth_max := NaN\<rparr>)))))
   \<and> vec3_z (trace_ptp (trace_pr identity33 (forwardPoint\<lparr>idepth_max := NaN\<rparr>))
        forwardKt (idepth_min (forwardPoint\<lparr>idepth_max := NaN\<rparr>))) = Fin 2
   \<and> fst (traceOn exampleGlobals rampFrame identity33 forwardKt exampleAffine
        (forwardPoint\<lparr>idepth_max := NaN\<rparr>)) = IPS_OOB"
proof -
  let ?p = "forwardPoint\<lparr>idepth_max := NaN\<rparr>"
  let ?ptp = "trace_ptp (trace_pr identity33 ?p) forwardKt (idepth_min ?p)"
  have z: "?ptp = (Fin 420, Fin 340, Fin 2)"
    by (simp add: trace_ptp_def trace_pr_def forwardPoint_def forwardKt_def example_defs)
  have b: "inImage exampleGlobals (fst (trace_pixel ?ptp)) (snd (trace_pixel ?ptp))"
    unfolding z by (simp add: trace_pixel_def inImage_def float_of_int_def exampleGlobals_def)
  have m: "\<not> idepth_min ?p < Fin 0"
    by (simp add: forwardPoint_def)
  have s: "\<not> (Fin 0.75 < vec3_z ?ptp \<and> vec3_z ?ptp < Fin 1.5)"
    unfolding z by simp
  have k: "\<not> trace_skips exampleGlobals identity33 forwardKt ?p"
    by (simp add: trace_skips_def Let_def)
  from traceOn_scale_change [OF b m s, of rampFrame exampleAffine] k b z
  show ?thesis by simp
qed

text \<open>
  The claim as the specification states it fails on the same point when the upper
  bound of its inverse depth is 1 as well: the depth changes by the factor 2, and
  the call returns skipped.
\<close>

theorem traceOn_scale_change_counterexample:
  "inImage exampleGlobals
     (fst (trace_pixel (trace_ptp (trace_pr identity33 forwardPoint) forwardKt
        (idepth_min forwardPoint))))
     (snd (trace_pixel (trace_ptp (trace_pr identity33 forwardPoint) forwardKt
        (idepth_min forwardPoint))))
   \<and> \<not> idepth_min forwardPoint < Fin 0
   \<and> vec3_z (trace_ptp (trace_pr identity33 forwardPoint) forwardKt (idepth_min forwardPoint))
       = Fin 2
   \<and> \<not> (Fin 0.75 < Fin 2 \<and> Fin 2 < Fin 1.5)
   \<and> lastTraceStatus forwardPoint = IPS_UNINITIALIZED
   \<and> fst (traceOn exampleGlobals rampFrame identity33 forwardKt exampleAffine forwardPoint)
       = IPS_SKIPPED"
proof -
  have z: "trace_ptp (trace_pr identity33 forwardPoint) forwardKt (idepth_min forwardPoint)
             = (Fin 420, Fin 340, Fin 2)"
    by (simp add: trace_ptp_def trace_pr_def forwardPoint_def forwardKt_def example_defs)
  have b: "inImage exampleGlobals (fst (trace_pixel (Fin 420, Fin 340, Fin 2)))
             (snd (trace_pixel (Fin 420, Fin 340, Fin 2)))"
    by (simp add: trace_pixel_def inImage_def float_of_int_def exampleGlobals_def)
  have m: "\<not> idepth_min forwardPoint < Fin 0"
    and st: "lastTraceStatus forwardPoint = IPS_UNINITIALIZED"
    by (simp_all add: forwardPoint_def examplePoint_def)
  show ?thesis
    unfolding z using b m st traceOn_forwardPoint by simp
qed

subsection \<open>A projection that fails in \<^verbatim>\<open>calcResidual\<close>\<close>

lemma calcResidual_loop_fails:
  assumes "(px, py) \<in> set ps"
    and "\<not> fst (projectPoint_KRKi rp (u p + float_of_int px) (v p + float_of_int py) idepth
             (PRE_KRKiTll (precalcOf p tmpRes)) (PRE_KtTll (precalcOf p tmpRes)))"
  shows "calcResidual_loop g rp p tmpRes idepth ps idx e = Inl (Fin 10000000000)"
  using assms(1)
proof (induction ps arbitrary: idx e)
  case Nil
  then show ?case by simp
next
  case (Cons q ps)
  obtain qx qy where q: "q = (qx, qy)" by (cases q)
  show ?case
  proof (cases "(px, py) = q")
    case True
    with assms(2) q show ?thesis by (auto split: prod.splits)
  next
    case False
    with Cons.prems have "(px, py) \<in> set ps" by simp
    from Cons.IH[OF this] show ?thesis
      by (simp add: q Let_def split: prod.splits)
  qed
qed

text \<open>
  C6. When the projection of the pixel moved by some offset of the pattern fails,
  \<^verbatim>\<open>calcResidual\<close> returns the penalty 1e10, whatever the other offsets do.
\<close>

theorem calcResidual_projection_fails:
  assumes "(px, py) \<in> set (patternP g)"
    and "\<not> fst (projectPoint_KRKi rp (u p + float_of_int px) (v p + float_of_int py) idepth
             (PRE_KRKiTll (precalcOf p tmpRes)) (PRE_KtTll (precalcOf p tmpRes)))"
  shows "fst (calcResidual g rp outlierTHSlack idepth (p, tmpRes)) = Fin 10000000000"
  by (simp add: calcResidual_def calcResidual_loop_fails[OF assms])

text \<open>
  The point that projects to column 3: the first offset of the pattern projects
  into the image, the fourth, two columns to the left, does not.
\<close>

theorem calcResidual_projection_fails_witness:
  "fst (projectPoint_KRKi exampleProjections (u borderPoint + float_of_int 0)
       (v borderPoint + float_of_int (- 2)) (Fin 1)
       (PRE_KRKiTll (precalcOf borderPoint exampleResidual))
       (PRE_KtTll (precalcOf borderPoint exampleResidual)))
   \<and> \<not> fst (projectPoint_KRKi exampleProjections (u borderPoint + float_of_int (- 2))
       (v borderPoint + float_of_int 0) (Fin 1)
       (PRE_KRKiTll (precalcOf borderPoint exampleResidual))
       (PRE_KtTll (precalcOf borderPoint exampleResidual)))
   \<and> fst (calcResidual exampleGlobals exampleProjections (Fin 1.2) (Fin 1)
        (borderPoint, exampleResidual)) = Fin 10000000000"
proof -
  have "(- 2, 0) \<in> set (patternP exampleGlobals)"
    by (simp add: exampleGlobals_def)
  from calcResidual_projection_fails [OF this projectPoint_KRKi_borderPoint(1), of "Fin 1.2"]
    projectPoint_KRKi_borderPoint
  show ?thesis by simp
qed

subsection \<open>\<^verbatim>\<open>calcResidual\<close> changes nothing\<close>

text \<open>
  C8. \<^verbatim>\<open>calcResidual\<close> leaves the point and the candidate residual as they were,
  and a second call with the same arguments on the state the first one left returns
  the same energy.
\<close>

theorem calcResidual_pure:
  assumes "calcResidual g rp outlierTHSlack idepth (p, tmpRes) = (e, p', tmpRes')"
  shows "p' = p \<and> tmpRes' = tmpRes
         \<and> calcResidual g rp outlierTHSlack idepth (p', tmpRes') = (e, p', tmpRes')"
  using assms by (auto simp: calcResidual_def split: sum.splits if_splits)

theorem calcResidual_pure_witness:
  "calcResidual exampleGlobals exampleProjections (Fin 1.2) (Fin 0) (examplePoint, exampleResidual)
     = (Fin 2, examplePoint, exampleResidual)
   \<and> fst (calcResidual exampleGlobals exampleProjections (Fin 1.2) (Fin 0)
        (snd (calcResidual exampleGlobals exampleProjections (Fin 1.2) (Fin 0)
           (examplePoint, exampleResidual)))) = Fin 2"
  using calcResidual_pure [OF calcResidual_examplePoint] calcResidual_examplePoint by simp

subsection \<open>A projection that fails in \<^verbatim>\<open>linearizeResidual\<close>\<close>

lemma linearizeResidual_loop_prefix:
  assumes "\<forall>q \<in> set ps1. \<not> offsetFails rp HCalib p tmpRes idepth q"
  shows "\<exists>acc'. linearizeResidual_loop g rp HCalib p tmpRes idepth ps1 idx acc = Inr acc'
           \<and> linearizeResidual_loop g rp HCalib p tmpRes idepth (ps1 @ ps2) idx acc
               = linearizeResidual_loop g rp HCalib p tmpRes idepth ps2 (idx + length ps1) acc'"
  using assms
proof (induction ps1 arbitrary: idx acc)
  case Nil
  then show ?case by simp
next
  case (Cons q ps1)
  obtain dx dy where q: "q = (dx, dy)" by (cases q)
  obtain e H b where acc: "acc = (e, H, b)" by (cases acc)
  from Cons.prems have ok: "\<not> offsetFails rp HCalib p tmpRes idepth (dx, dy)"
    and rest: "\<forall>q \<in> set ps1. \<not> offsetFails rp HCalib p tmpRes idepth q"
    by (simp_all add: q)
  from ok show ?case
    unfolding q acc
    using Cons.IH[OF rest, of "Suc idx"]
    by (auto simp: Let_def split: prod.splits if_splits)
qed

lemma linearizeResidual_loop_first_fails:
  assumes "offsetFails rp HCalib p tmpRes idepth q"
  shows "linearizeResidual_loop g rp HCalib p tmpRes idepth (q # ps) idx (e, Hdd, bd)
           = Inl (Hdd, bd)"
  using assms by (cases q) (auto simp: Let_def split: prod.splits if_splits)

text \<open>
  C5, as the program has it. When \<^verbatim>\<open>linearizeResidual\<close> runs on a residual that is
  not out of bounds and the offset \<open>q\<close> is the first of the pattern at which the
  projection fails or the sampled intensity is not finite, the call returns the
  energy stored in the residual, and the point and the residual are as before but
  for the pending state, which is out of bounds. \<^verbatim>\<open>Hdd\<close> and \<^verbatim>\<open>bd\<close> hold what the
  loop has added for the offsets before \<open>q\<close>: their values of before the call
  when \<open>q\<close> is the first offset of the pattern.
\<close>

theorem linearizeResidual_projection_fails:
  assumes "state_state tmpRes \<noteq> OOB"
    and "patternP g = ps1 @ q # ps2"
    and "\<forall>q' \<in> set ps1. \<not> offsetFails rp HCalib p tmpRes idepth q'"
    and "offsetFails rp HCalib p tmpRes idepth q"
  shows "fst (linearizeResidual g rp HCalib outlierTHSlack idepth (p, tmpRes) (Hdd, bd))
           = state_energy tmpRes
         \<and> fst (snd (linearizeResidual g rp HCalib outlierTHSlack idepth (p, tmpRes) (Hdd, bd)))
           = (p, tmpRes\<lparr>state_NewState := OOB\<rparr>)
         \<and> (\<exists>e. linearizeResidual_loop g rp HCalib p tmpRes idepth ps1 0 (Fin 0, Hdd, bd)
               = Inr (e, snd (snd (linearizeResidual g rp HCalib outlierTHSlack idepth
                                     (p, tmpRes) (Hdd, bd)))))
         \<and> (ps1 = [] \<longrightarrow>
              snd (snd (linearizeResidual g rp HCalib outlierTHSlack idepth (p, tmpRes) (Hdd, bd)))
                = (Hdd, bd))"
proof -
  from linearizeResidual_loop_prefix[OF assms(3), of g 0 "(Fin 0, Hdd, bd)" "q # ps2"]
  obtain e H b where
    pre: "linearizeResidual_loop g rp HCalib p tmpRes idepth ps1 0 (Fin 0, Hdd, bd)
            = Inr (e, H, b)"
    and all: "linearizeResidual_loop g rp HCalib p tmpRes idepth (ps1 @ q # ps2) 0
                (Fin 0, Hdd, bd)
            = linearizeResidual_loop g rp HCalib p tmpRes idepth (q # ps2) (0 + length ps1)
                (e, H, b)"
    by (metis prod_cases3)
  have "linearizeResidual_loop g rp HCalib p tmpRes idepth (patternP g) 0 (Fin 0, Hdd, bd)
      = Inl (H, b)"
    unfolding assms(2) all by (rule linearizeResidual_loop_first_fails[OF assms(4)])
  with assms(1) pre show ?thesis
    by (auto simp add: linearizeResidual_def)
qed

text \<open>
  The point that projects to column 3, with 10 in \<^verbatim>\<open>Hdd\<close> and 20 in \<^verbatim>\<open>bd\<close> before
  the call: three offsets are added before the fourth fails.
\<close>

theorem linearizeResidual_projection_fails_witness:
  "fst (linearizeResidual exampleGlobals exampleProjections exampleCalib (Fin 1.2) (Fin 1)
     (borderPoint, exampleResidual) (Fin 10, Fin 20)) = Fin 7
   \<and> fst (snd (linearizeResidual exampleGlobals exampleProjections exampleCalib (Fin 1.2) (Fin 1)
     (borderPoint, exampleResidual) (Fin 10, Fin 20)))
       = (borderPoint, exampleResidual\<lparr>state_NewState := OOB\<rparr>)
   \<and> snd (snd (linearizeResidual exampleGlobals exampleProjections exampleCalib (Fin 1.2) (Fin 1)
     (borderPoint, exampleResidual) (Fin 10, Fin 20))) = (Fin (170012 / 65), Fin 2639)"
proof -
  have s: "state_state exampleResidual \<noteq> OOB"
    by (simp add: exampleResidual_def)
  have pat: "patternP exampleGlobals
      = [(0, - 2), (- 1, - 1), (1, - 1)] @ (- 2, 0) # [(0, 0), (2, 0), (- 1, 1), (0, 2)]"
    by (simp add: exampleGlobals_def)
  from linearizeResidual_projection_fails
    [OF s pat offsetFails_borderPoint(2) offsetFails_borderPoint(1), of "Fin 1.2" "Fin 10" "Fin 20"]
  show ?thesis
    unfolding linearizeResidual_loop_borderPoint by (simp add: exampleResidual_def)
qed

text \<open>
  The claim as the specification states it fails there: with 0 in \<^verbatim>\<open>Hdd\<close> and
  \<^verbatim>\<open>bd\<close> before the call, they are not 0 after it.
\<close>

theorem linearizeResidual_projection_fails_counterexample:
  "state_state exampleResidual = IN
   \<and> offsetFails exampleProjections exampleCalib borderPoint exampleResidual (Fin 1) (- 2, 0)
   \<and> snd (snd (linearizeResidual exampleGlobals exampleProjections exampleCalib (Fin 1.2) (Fin 1)
        (borderPoint, exampleResidual) (Fin 0, Fin 0))) = (Fin (169362 / 65), Fin 2619)"
  using offsetFails_borderPoint(1) linearizeResidual_borderPoint
  by (simp add: exampleResidual_def)

subsection \<open>The sign of \<^verbatim>\<open>getdPixdd\<close>\<close>










subsection \<open>The quality\<close>

lemma float_add_nonneg: "\<not> a < Fin 0 \<Longrightarrow> \<not> b < Fin 0 \<Longrightarrow> \<not> (a + b :: float) < Fin 0"
  by (cases a; cases b) auto

lemma huber_real:
  fixes h x :: real
  assumes "0 \<le> h" and "h \<le> \<bar>x\<bar>" and "x \<noteq> 0"
  shows "0 \<le> h / \<bar>x\<bar> * x * x * (2 - h / \<bar>x\<bar>)"
proof -
  have "h / \<bar>x\<bar> \<le> 1" using assms by (simp add: divide_le_eq)
  then have a: "0 \<le> 2 - h / \<bar>x\<bar>" by simp
  have b: "0 \<le> h / \<bar>x\<bar>" using assms by simp
  have c: "0 \<le> x * x" by simp
  have "0 \<le> h / \<bar>x\<bar> * (x * x)" using b c by (rule mult_nonneg_nonneg)
  then have "0 \<le> h / \<bar>x\<bar> * (x * x) * (2 - h / \<bar>x\<bar>)" using a by (rule mult_nonneg_nonneg)
  then show ?thesis by (simp only: mult.assoc)
qed

text \<open>With a Huber threshold that is not negative, a term of the energy is not negative.\<close>

lemma huber_term_nonneg:
  assumes "\<not> setting_huberTH g < Fin 0"
  shows "\<not> huberWeight g r * r * r * (Fin 2 - huberWeight g r) < Fin 0"
proof (cases "setting_huberTH g")
  case (Fin h)
  with assms have h: "0 \<le> h" by simp
  show ?thesis
  proof (cases r)
    case (Fin x)
    show ?thesis
    proof (cases "\<bar>x\<bar> < h")
      case True
      then show ?thesis
        using \<open>setting_huberTH g = Fin h\<close> \<open>r = Fin x\<close>
        by (simp add: huberWeight_def minus_float_def not_less)
    next
      case False
      then have le: "h \<le> \<bar>x\<bar>" by simp
      show ?thesis
      proof (cases "x = 0")
        case True
        with le h have "h = 0" by simp
        then show ?thesis
          using \<open>setting_huberTH g = Fin h\<close> \<open>r = Fin x\<close> True
          by (simp add: huberWeight_def minus_float_def)
      next
        case x0: False
        from huber_real[OF h le x0] show ?thesis
          using \<open>setting_huberTH g = Fin h\<close> \<open>r = Fin x\<close> False x0
          by (simp add: huberWeight_def minus_float_def not_less)
      qed
    qed
  qed (simp_all add: huberWeight_def \<open>setting_huberTH g = Fin h\<close> minus_float_def)
next
  case PInf
  then show ?thesis by (cases r) (simp_all add: huberWeight_def minus_float_def not_less)
next
  case NInf
  with assms show ?thesis by simp
next
  case NaN
  then show ?thesis by (cases r) (simp_all add: huberWeight_def minus_float_def)
qed

lemma trace_stepEnergy_nonneg:
  assumes "\<not> setting_huberTH g < Fin 0"
  shows "\<not> e < Fin 0 \<Longrightarrow> \<not> trace_stepEnergy g frame aff p ptx pty rps idx e < Fin 0"
proof (induction rps arbitrary: idx e)
  case Nil
  then show ?case by simp
next
  case (Cons rp rps)
  have pen: "\<not> e + Fin 100000 < Fin 0"
    using Cons.prems by (intro float_add_nonneg) simp_all
  have trm: "\<not> e + huberWeight g r * r * r * (Fin 2 - huberWeight g r) < Fin 0" for r
    using Cons.prems huber_term_nonneg[OF assms] by (intro float_add_nonneg)
  show ?case
    by (simp add: Let_def Cons.IH[OF pen] Cons.IH[OF trm])
qed

lemma less_fin_nonneg: "\<not> e < Fin 0 \<Longrightarrow> e < b \<Longrightarrow> fin_nonneg b \<Longrightarrow> fin_nonneg e"
  by (cases e; cases b) simp_all

text \<open>
  The discrete search keeps the energies not negative and the best energy finite
  and not negative.
\<close>

lemma trace_discreteSearch_nonneg:
  assumes "\<not> setting_huberTH g < Fin 0"
  shows "list_all (\<lambda>e. \<not> e < Fin 0) (ds_errors s) \<Longrightarrow> fin_nonneg (ds_bestEnergy s)
     \<Longrightarrow> list_all (\<lambda>e. \<not> e < Fin 0)
           (ds_errors (trace_discreteSearch g frame aff p ts n i ptx pty s))
         \<and> fin_nonneg (ds_bestEnergy (trace_discreteSearch g frame aff p ts n i ptx pty s))"
proof (induction n arbitrary: i ptx pty s)
  case 0
  then show ?case by simp
next
  case (Suc n)
  let ?e = "trace_stepEnergy g frame aff p ptx pty (ts_rotatetPattern ts) 0 (Fin 0)"
  have e: "\<not> ?e < Fin 0"
    by (rule trace_stepEnergy_nonneg[OF assms]) simp
  show ?case
  proof (cases "?e < ds_bestEnergy s")
    case True
    from e True Suc.prems(2) have "fin_nonneg ?e" by (rule less_fin_nonneg)
    with Suc.prems e True show ?thesis
      by (simp add: Let_def Suc.IH)
  next
    case False
    with Suc.prems e show ?thesis
      by (simp add: Let_def Suc.IH)
  qed
qed

lemma trace_secondBest_nonneg:
  "list_all (\<lambda>e. \<not> e < Fin 0) es \<Longrightarrow> fin_nonneg sb
     \<Longrightarrow> fin_nonneg (trace_secondBest g bestIdx es i sb)"
proof (induction es arbitrary: i sb)
  case Nil
  then show ?case by simp
next
  case (Cons e es)
  then show ?case
    by (auto intro: less_fin_nonneg)
qed

lemma float_divide_nonneg: "fin_nonneg a \<Longrightarrow> fin_nonneg b \<Longrightarrow> \<not> (a / b :: float) < Fin 0"
  by (cases a; cases b) (auto simp: not_less)

lemma trace_newQuality_nonneg:
  assumes "\<not> setting_huberTH g < Fin 0"
  shows "\<not> trace_newQuality g (trace_search g frame aff p ts) < Fin 0"
proof -
  let ?s = "trace_search g frame aff p ts"
  have "list_all (\<lambda>e. \<not> e < Fin 0) (ds_errors ?s) \<and> fin_nonneg (ds_bestEnergy ?s)"
    unfolding trace_search_def
    by (rule trace_discreteSearch_nonneg[OF assms]) simp_all
  then show ?thesis
    unfolding trace_newQuality_def
    by (intro float_divide_nonneg trace_secondBest_nonneg) simp_all
qed

text \<open>Only line 332 assigns to the quality.\<close>

lemma trace_endpoints_quality:
  "trace_endpoints g Kt pr uMin vMin p = Inl r \<Longrightarrow> quality (snd r) = quality p"
  by (auto simp: trace_endpoints_def Let_def trace_return_def split: if_splits)

lemma trace_prepare_quality:
  "trace_prepare g KRKi pr uMin vMin d uMax vMax p = Inl r \<Longrightarrow> quality (snd r) = quality p"
  by (auto simp: trace_prepare_def Let_def trace_return_def split: if_splits)

lemma trace_setup_quality:
  "trace_setup g KRKi Kt p = Inl r \<Longrightarrow> quality (snd r) = quality p"
  by (auto simp: trace_setup_def Let_def trace_return_def split: if_splits sum.splits prod.splits
      dest: trace_endpoints_quality trace_prepare_quality)

lemma trace_finish_quality:
  "quality (snd (trace_finish g Kt p ts s)) = quality p"
  by (simp add: trace_finish_def trace_return_def Let_def split: prod.splits)

lemma traceOn_quality_step:
  "quality (snd (traceOn g frame KRKi Kt aff p)) = quality p
   \<or> (\<exists>ts. trace_setup g KRKi Kt p = Inr ts
         \<and> quality (snd (traceOn g frame KRKi Kt aff p))
             = trace_newQuality g (trace_search g frame aff p ts)
         \<and> (trace_newQuality g (trace_search g frame aff p ts) < quality p
              \<or> 10 < trace_numSteps ts))"
proof (cases "lastTraceStatus p = IPS_OOB")
  case True
  then show ?thesis by (simp add: traceOn_def)
next
  case False
  show ?thesis
  proof (cases "trace_setup g KRKi Kt p")
    case (Inl r)
    with False trace_setup_quality[OF Inl] show ?thesis
      by (simp add: traceOn_def)
  next
    case (Inr ts)
    with False show ?thesis
      by (simp add: traceOn_def Let_def trace_finish_quality trace_updateQuality_def)
  qed
qed

lemma traceOn_quality_nonneg:
  assumes "\<not> setting_huberTH g < Fin 0" and "\<not> quality p < Fin 0"
  shows "\<not> quality (snd (traceOn g frame KRKi Kt aff p)) < Fin 0"
proof -
  from traceOn_quality_step[of g frame KRKi Kt aff p]
  consider "quality (snd (traceOn g frame KRKi Kt aff p)) = quality p"
    | ts where "quality (snd (traceOn g frame KRKi Kt aff p))
                  = trace_newQuality g (trace_search g frame aff p ts)"
    by blast
  then show ?thesis
  proof cases
    case 1
    with assms(2) show ?thesis by simp
  next
    case 2
    with trace_newQuality_nonneg[OF assms(1), of frame aff p ts] show ?thesis by simp
  qed
qed

lemma traceOn_calls_quality_nonneg:
  assumes "\<not> setting_huberTH g < Fin 0"
  shows "\<not> quality p < Fin 0 \<Longrightarrow> \<not> quality (traceOn_calls g calls p) < Fin 0"
proof (induction calls arbitrary: p)
  case Nil
  then show ?case by simp
next
  case (Cons c calls)
  obtain frame KRKi Kt aff where c: "c = (frame, KRKi, Kt, aff)" by (cases c)
  show ?case unfolding c
    by (simp add: Cons.IH[OF traceOn_quality_nonneg[OF assms Cons.prems]])
qed

text \<open>The quality after one call, by the way the call ends.\<close>

lemma traceOn_quality_exact:
  assumes "lastTraceStatus p \<noteq> IPS_OOB" and "trace_setup g KRKi Kt p = Inr ts"
  shows "quality (snd (traceOn g frame KRKi Kt aff p))
           = (if trace_newQuality g (trace_search g frame aff p ts) < quality p
                 \<or> 10 < trace_numSteps ts
              then trace_newQuality g (trace_search g frame aff p ts) else quality p)"
  using assms
  by (simp add: traceOn_def Let_def trace_finish_quality trace_updateQuality_def)

lemma traceOn_quality_early:
  assumes "lastTraceStatus p = IPS_OOB \<or> trace_setup g KRKi Kt p = Inl r"
  shows "quality (snd (traceOn g frame KRKi Kt aff p)) = quality p"
proof (cases "lastTraceStatus p = IPS_OOB")
  case True
  then show ?thesis by (simp add: traceOn_def)
next
  case False
  with assms have i: "trace_setup g KRKi Kt p = Inl r" by simp
  from False trace_setup_quality[OF i] i show ?thesis by (simp add: traceOn_def)
qed

text \<open>
  C7. With a Huber threshold that is not negative, the quality of a point is not
  negative after any sequence of calls of \<^verbatim>\<open>traceOn\<close> when it was not negative
  before it (the constructor sets it to 10000). A call leaves the quality as it
  was, or stores the new ratio of the second-best to the best energy; it stores
  the ratio only when the ratio is below the quality of before the call or the
  search had more than 10 steps. A call that gets to the discrete search stores
  the ratio whenever the ratio is below the quality of before the call or the
  search had more than 10 steps, also when the ratio is the higher one, and leaves
  the quality as it was otherwise; a call that returns before the search leaves
  the quality as it was.
\<close>

theorem traceOn_quality:
  assumes "\<not> setting_huberTH g < Fin 0" and "\<not> quality p < Fin 0"
  shows "\<not> quality (traceOn_calls g calls p) < Fin 0
         \<and> (quality (snd (traceOn g frame KRKi Kt aff p)) = quality p
            \<or> (\<exists>ts. trace_setup g KRKi Kt p = Inr ts
                  \<and> quality (snd (traceOn g frame KRKi Kt aff p))
                      = trace_newQuality g (trace_search g frame aff p ts)
                  \<and> (trace_newQuality g (trace_search g frame aff p ts) < quality p
                       \<or> 10 < trace_numSteps ts)))
         \<and> (lastTraceStatus p \<noteq> IPS_OOB \<and> trace_setup g KRKi Kt p = Inr ts'
              \<longrightarrow> quality (snd (traceOn g frame KRKi Kt aff p))
                    = (if trace_newQuality g (trace_search g frame aff p ts') < quality p
                          \<or> 10 < trace_numSteps ts'
                       then trace_newQuality g (trace_search g frame aff p ts')
                       else quality p))
         \<and> (lastTraceStatus p = IPS_OOB \<or> trace_setup g KRKi Kt p = Inl r
              \<longrightarrow> quality (snd (traceOn g frame KRKi Kt aff p)) = quality p)"
proof (intro conjI impI)
  show "\<not> quality (traceOn_calls g calls p) < Fin 0"
    by (rule traceOn_calls_quality_nonneg[OF assms])
  show "quality (snd (traceOn g frame KRKi Kt aff p)) = quality p
            \<or> (\<exists>ts. trace_setup g KRKi Kt p = Inr ts
                  \<and> quality (snd (traceOn g frame KRKi Kt aff p))
                      = trace_newQuality g (trace_search g frame aff p ts)
                  \<and> (trace_newQuality g (trace_search g frame aff p ts) < quality p
                       \<or> 10 < trace_numSteps ts))"
    by (rule traceOn_quality_step)
next
  assume "lastTraceStatus p \<noteq> IPS_OOB \<and> trace_setup g KRKi Kt p = Inr ts'"
  then show "quality (snd (traceOn g frame KRKi Kt aff p))
                    = (if trace_newQuality g (trace_search g frame aff p ts') < quality p
                          \<or> 10 < trace_numSteps ts'
                       then trace_newQuality g (trace_search g frame aff p ts')
                       else quality p)"
    by (simp add: traceOn_quality_exact)
next
  assume "lastTraceStatus p = IPS_OOB \<or> trace_setup g KRKi Kt p = Inl r"
  then show "quality (snd (traceOn g frame KRKi Kt aff p)) = quality p"
    by (rule traceOn_quality_early)
qed

text \<open>
  The example point, of quality 10000: the ratio of the first call is 25, which is
  lower and is stored. The point that this call leaves, of quality 25: the search
  of the second call has 2 steps and its ratio, 1125000000000 / 49, is higher, so
  the quality stays 25. The point with the quality 3 against the target frame of
  brightness offset 0.25: the search has 32 steps and the ratio 121, higher than
  3, is stored.
\<close>

theorem traceOn_quality_witness:
  "quality examplePoint = Fin 10000
   \<and> trace_newQuality exampleGlobals
       (trace_search exampleGlobals rampFrame exampleAffine examplePoint exampleSetup) = Fin 25
   \<and> quality (snd (traceOn exampleGlobals rampFrame identity33 exampleKt exampleAffine
        examplePoint)) = Fin 25
   \<and> quality examplePoint_traced = Fin 25
   \<and> trace_numSteps (exampleSetup\<lparr>ts_numSteps := 2, ts_ptx := Fin (1489 / 15)\<rparr>) = 2
   \<and> trace_newQuality exampleGlobals
       (trace_search exampleGlobals rampFrame exampleAffine examplePoint_traced
          (exampleSetup\<lparr>ts_numSteps := 2, ts_ptx := Fin (1489 / 15)\<rparr>))
       = Fin (1125000000000 / 49)
   \<and> quality (snd (traceOn exampleGlobals rampFrame identity33 exampleKt exampleAffine
        examplePoint_traced)) = Fin 25
   \<and> \<not> quality (traceOn_calls exampleGlobals [exampleCall, exampleCall] examplePoint) < Fin 0
   \<and> quality retracedPoint = Fin 3
   \<and> trace_numSteps (exampleSetup\<lparr>ts_numSteps := 32\<rparr>) = 32
   \<and> trace_newQuality exampleGlobals
       (trace_search exampleGlobals rampFrame dimAffine retracedPoint
          (exampleSetup\<lparr>ts_numSteps := 32\<rparr>)) = Fin 121
   \<and> quality (snd (traceOn exampleGlobals rampFrame identity33 exampleKt dimAffine
        retracedPoint)) = Fin 121"
proof -
  have h: "\<not> setting_huberTH exampleGlobals < Fin 0"
    by (simp add: exampleGlobals_def)
  have q1: "\<not> quality examplePoint < Fin 0" and q2: "\<not> quality examplePoint_traced < Fin 0"
    and q3: "\<not> quality retracedPoint < Fin 0"
    by (simp_all add: examplePoint_def examplePoint_traced_def retracedPoint_def)
  have s1: "lastTraceStatus examplePoint \<noteq> IPS_OOB"
    and s2: "lastTraceStatus examplePoint_traced \<noteq> IPS_OOB"
    and s3: "lastTraceStatus retracedPoint \<noteq> IPS_OOB"
    by (simp_all add: examplePoint_def examplePoint_traced_def retracedPoint_def)
  from traceOn_quality [OF h q1, of "[exampleCall, exampleCall]" rampFrame identity33 exampleKt
      exampleAffine exampleSetup]
    traceOn_quality [OF h q2, of "[]" rampFrame identity33 exampleKt exampleAffine
      "exampleSetup\<lparr>ts_numSteps := 2, ts_ptx := Fin (1489 / 15)\<rparr>"]
    traceOn_quality [OF h q3, of "[]" rampFrame identity33 exampleKt dimAffine
      "exampleSetup\<lparr>ts_numSteps := 32\<rparr>"]
    s1 s2 s3 trace_setup_examplePoint trace_setup_examplePoint_traced trace_setup_retracedPoint
    trace_newQuality_examplePoint trace_newQuality_examplePoint_traced
    trace_newQuality_retracedPoint
  show ?thesis
    by (simp add: examplePoint_def examplePoint_traced_def retracedPoint_def trace_numSteps_def
        exampleSetup_def)
qed

text \<open>
  The quality of a point made by the constructor: 10000 when its energy threshold
  is finite, that is, when every sample of the fingerprint was.
\<close>

lemma ImmaturePoint_pattern_failed:
  "ImmaturePoint_pattern g ps idx p = (False, p') \<Longrightarrow> energyTH p' = NaN"
proof (induction ps arbitrary: idx p)
  case Nil
  then show ?case by simp
next
  case (Cons q ps)
  obtain dx dy where q: "q = (dx, dy)" by (cases q)
  from Cons.prems show ?case
    unfolding q
    by (auto simp: Let_def split: if_splits prod.splits dest: Cons.IH)
qed

lemma ImmaturePoint_new_quality:
  assumes "isfinite (energyTH (ImmaturePoint_new g u0 v0 host0 type raw))"
  shows "quality (ImmaturePoint_new g u0 v0 host0 type raw) = Fin 10000"
  using assms
  by (auto simp: ImmaturePoint_new_def Let_def split: prod.splits bool.splits
      dest: ImmaturePoint_pattern_failed)

lemma traceOn_calls_constructed:
  assumes "\<not> setting_huberTH g < Fin 0"
    and "isfinite (energyTH (ImmaturePoint_new g u0 v0 host0 type raw))"
  shows "\<not> quality (traceOn_calls g calls (ImmaturePoint_new g u0 v0 host0 type raw)) < Fin 0"
  by (rule traceOn_calls_quality_nonneg[OF assms(1)])
     (simp add: ImmaturePoint_new_quality[OF assms(2)])

end
